theory Spec2Isabelle
  imports Complex_Main
begin

section \<open>The ledger store\<close>

text \<open>
  The five relations of the schema (users, products, orders, order_items, payments) are
  lists of rows. Monetary columns are \<open>DECIMAL(10,2)\<close>; a stored amount is the
  integer number of hundredths it denotes. The products and sums of the service are
  exact: the rounding error of double arithmetic is not modelled. Integer columns are
  unbounded integers: the ranges of \<open>INTEGER\<close> and \<open>DECIMAL(10,2)\<close> are not
  modelled. Timestamps are milliseconds since the epoch. The \<open>SERIAL\<close> keys draw from
  one sequence per relation.

  A number that the service computes with (a requested quantity, the running total) is
  a finite JavaScript number, modelled as the real it denotes; totals are counted in
  hundredths like the amounts of the store.
\<close>

type_synonym money = int

record user_row =
  u_id :: int
  u_email :: string
  u_password :: string
  u_created_at :: nat

record product_row =
  p_id :: int
  p_name :: string
  p_price :: money
  p_stock :: int

record order_row =
  o_id :: int
  o_user_id :: int
  o_status :: string
  o_total_amount :: money
  o_created_at :: nat

record order_item_row =
  oi_id :: int
  oi_order_id :: int
  oi_product_id :: int
  oi_quantity :: int
  oi_price :: money

record payment_row =
  pay_id :: int
  pay_order_id :: int
  pay_amount :: money
  pay_status :: string
  pay_created_at :: nat

record db =
  users :: "user_row list"
  products :: "product_row list"
  orders :: "order_row list"
  order_items :: "order_item_row list"
  payments :: "payment_row list"
  orders_id_seq :: int
  order_items_id_seq :: int
  payments_id_seq :: int

text \<open>
  Every \<open>throw new Error(...)\<close> of the order service is a constructor carrying the values
  that its message interpolates:
  \<^item> \<open>UserNotFound\<close>: \<^verbatim>\<open>User not found\<close>;
  \<^item> \<open>ProductNotFound i\<close>: \<^verbatim>\<open>Product ${item.productId} not found\<close>;
  \<^item> \<open>InsufficientStock n a r\<close>:
    \<^verbatim>\<open>Insufficient stock for product ${product.name}. Available: ${product.stock}, Requested: ${item.quantity}\<close>;
  \<^item> \<open>PaymentFailed\<close>: \<^verbatim>\<open>Payment processing failed\<close>;
  \<^item> \<open>OrderNotFound\<close>: \<^verbatim>\<open>Order not found\<close>;
  \<^item> \<open>NotCancelable st\<close>: \<^verbatim>\<open>Cannot cancel order with status: ${order.status}\<close>.

  The last three constructors are the failures of the store itself: an update that
  matches no row, a violated primary key or unique index, and a required relation that
  resolves to nothing.
\<close>

datatype error =
    UserNotFound
  | ProductNotFound int
  | InsufficientStock string int real
  | PaymentFailed
  | OrderNotFound
  | NotCancelable string
  | RecordNotFound
  | UniqueViolation string
  | InconsistentResult

subsection \<open>Decimal rendering of numbers in template strings\<close>

definition digit_char :: "nat \<Rightarrow> char" where
  "digit_char n = char_of (48 + n)"

function show_nat :: "nat \<Rightarrow> string" where
  "show_nat n = (if n < 10 then [digit_char n] else show_nat (n div 10) @ [digit_char (n mod 10)])"
  by pat_completeness auto
termination
  by (relation "measure id") auto

definition show_int :: "int \<Rightarrow> string" where
  "show_int i = (if i < 0 then CHR ''-'' # show_nat (nat (- i)) else show_nat (nat i))"

subsection \<open>Store operations used by the order service\<close>

text \<open>
  Modelled from the spec: the client of the Ledger Store (\<open>utils/db.js\<close> and the query
  library behind it) is not among the sources. \<open>findUnique\<close> returns the row with the
  given key or nothing; \<open>update\<close> fails when no row has the key; \<open>create\<close> draws the key
  from the relation's sequence and fails on a key that is already present.
\<close>

definition user_findUnique :: "int \<Rightarrow> db \<Rightarrow> user_row option" where
  "user_findUnique i s = find (\<lambda>u. u_id u = i) (users s)"

definition product_findUnique :: "int \<Rightarrow> db \<Rightarrow> product_row option" where
  "product_findUnique i s = find (\<lambda>p. p_id p = i) (products s)"

definition order_findUnique :: "int \<Rightarrow> db \<Rightarrow> order_row option" where
  "order_findUnique i s = find (\<lambda>ord. o_id ord = i) (orders s)"

text \<open>The relation \<open>orderItems\<close> of an order, as \<open>include: { orderItems: true }\<close> loads it.\<close>

definition order_orderItems :: "int \<Rightarrow> db \<Rightarrow> order_item_row list" where
  "order_orderItems i s = filter (\<lambda>r. oi_order_id r = i) (order_items s)"

text \<open>
  Modelled from the spec: stock and quantities are integers and amounts are fixed-point
  with two decimals. The spec does not say what the store makes of a number that does
  not fit its column. In the model a number handed to the store for an integer column
  is cut to its integer part, and a number handed to it for an amount is rounded to the
  nearest hundredth, halves away from zero. Both leave an integer, respectively a
  whole number of hundredths, as it is (\<open>int_column_of_int\<close>,
  \<open>decimal_column_of_int\<close>), which is all that the results about requests with
  integer quantities use.
\<close>

definition int_column :: "real \<Rightarrow> int" where
  "int_column x = (if 0 \<le> x then \<lfloor>x\<rfloor> else \<lceil>x\<rceil>)"

definition decimal_column :: "real \<Rightarrow> money" where
  "decimal_column x = (if 0 \<le> x then \<lfloor>x + 1 / 2\<rfloor> else \<lceil>x - 1 / 2\<rceil>)"

text \<open>\<open>data: { stock: { increment: q } }\<close> and \<open>data: { stock: { decrement: q } }\<close>.\<close>

datatype stock_op = Increment real | Decrement real

fun apply_stock_op :: "stock_op \<Rightarrow> int \<Rightarrow> int" where
  "apply_stock_op (Increment q) n = n + int_column q"
| "apply_stock_op (Decrement q) n = n - int_column q"

definition product_update :: "int \<Rightarrow> stock_op \<Rightarrow> db \<Rightarrow> error + db" where
  "product_update i f s =
     (case product_findUnique i s of
        None \<Rightarrow> Inl RecordNotFound
      | Some _ \<Rightarrow>
          Inr (s\<lparr>products :=
                 map (\<lambda>p. if p_id p = i then p\<lparr>p_stock := apply_stock_op f (p_stock p)\<rparr> else p)
                   (products s)\<rparr>))"

definition order_update_status :: "int \<Rightarrow> string \<Rightarrow> db \<Rightarrow> (error + order_row) \<times> db" where
  "order_update_status i st s =
     (case order_findUnique i s of
        None \<Rightarrow> (Inl RecordNotFound, s)
      | Some ord \<Rightarrow>
          (Inr (ord\<lparr>o_status := st\<rparr>),
           s\<lparr>orders := map (\<lambda>r. if o_id r = i then r\<lparr>o_status := st\<rparr> else r) (orders s)\<rparr>))"

record item_data =
  d_productId :: int
  d_quantity :: real
  d_price :: money

fun order_items_create :: "int \<Rightarrow> item_data list \<Rightarrow> db \<Rightarrow> (error + unit) \<times> db" where
  "order_items_create oid [] s = (Inr (), s)"
| "order_items_create oid (d # ds) s =
     (let iid = order_items_id_seq s;
          s1 = s\<lparr>order_items_id_seq := iid + 1\<rparr>
      in if find (\<lambda>r. oi_id r = iid) (order_items s1) \<noteq> None
         then (Inl (UniqueViolation ''order_items_pkey''), s1)
         else order_items_create oid ds
                (s1\<lparr>order_items := order_items s1 @
                      [\<lparr>oi_id = iid, oi_order_id = oid, oi_product_id = d_productId d,
                        oi_quantity = int_column (d_quantity d), oi_price = d_price d\<rparr>]\<rparr>))"

text \<open>
  \<open>tx.order.create\<close> with the nested \<open>orderItems: { create: ... }\<close>: one order row, then
  one order_items row per element. The relations included in the returned object are
  never read by the caller, so the order row alone is returned.
\<close>

definition order_create ::
  "nat \<Rightarrow> int \<Rightarrow> string \<Rightarrow> real \<Rightarrow> item_data list \<Rightarrow> db \<Rightarrow> (error + order_row) \<times> db" where
  "order_create now userId st total_amount ds s =
     (let oid = orders_id_seq s;
          s1 = s\<lparr>orders_id_seq := oid + 1\<rparr>
      in if find (\<lambda>r. o_id r = oid) (orders s1) \<noteq> None
         then (Inl (UniqueViolation ''orders_pkey''), s1)
         else
           (let ord = \<lparr>o_id = oid, o_user_id = userId, o_status = st,
                       o_total_amount = decimal_column total_amount, o_created_at = now\<rparr>
            in case order_items_create oid ds (s1\<lparr>orders := orders s1 @ [ord]\<rparr>) of
                 (Inl e, s2) \<Rightarrow> (Inl e, s2)
               | (Inr _, s2) \<Rightarrow> (Inr ord, s2)))"

definition payment_create ::
  "nat \<Rightarrow> int \<Rightarrow> real \<Rightarrow> string \<Rightarrow> db \<Rightarrow> (error + payment_row) \<times> db" where
  "payment_create now orderId amount st s =
     (let pid = payments_id_seq s;
          s1 = s\<lparr>payments_id_seq := pid + 1\<rparr>
      in if find (\<lambda>r. pay_id r = pid) (payments s1) \<noteq> None
         then (Inl (UniqueViolation ''payments_pkey''), s1)
         else if find (\<lambda>r. pay_order_id r = orderId) (payments s1) \<noteq> None
         then (Inl (UniqueViolation ''payments_order_id_key''), s1)
         else
           (let row = \<lparr>pay_id = pid, pay_order_id = orderId, pay_amount = decimal_column amount,
                       pay_status = st, pay_created_at = now\<rparr>
            in (Inr row, s1\<lparr>payments := payments s1 @ [row]\<rparr>)))"

text \<open>
  Modelled from the spec: \<open>prisma.$transaction\<close>, the store's unit of work. It runs the
  body; when the body throws, every write to the five relations is discarded and the
  error is rethrown; otherwise the writes are kept. Values already drawn from a
  sequence are not given back.
\<close>

definition rollback :: "db \<Rightarrow> db \<Rightarrow> db" where
  "rollback s s' =
     s\<lparr>orders_id_seq := orders_id_seq s',
       order_items_id_seq := order_items_id_seq s',
       payments_id_seq := payments_id_seq s'\<rparr>"

definition transaction :: "(db \<Rightarrow> (error + 'a) \<times> db) \<Rightarrow> db \<Rightarrow> (error + 'a) \<times> db" where
  "transaction body s =
     (case body s of
        (Inl e, s') \<Rightarrow> (Inl e, rollback s s')
      | (Inr r, s') \<Rightarrow> (Inr r, s'))"

section \<open>The payment service\<close>

record payment_result =
  success :: bool
  transactionId :: "string option"

text \<open>
  \<open>processPayment(amount, orderId)\<close>; \<open>now\<close> is the value of \<open>Date.now()\<close> when it runs.
  The delay of 100 ms is not modelled.
\<close>

definition processPayment :: "nat \<Rightarrow> real \<Rightarrow> int \<Rightarrow> payment_result" where
  "processPayment now amount orderId =
     (let ok = True
      in if ok
         then \<lparr>success = True,
               transactionId = Some (''txn_'' @ show_nat now @ ''_'' @ show_int orderId)\<rparr>
         else \<lparr>success = False, transactionId = None\<rparr>)"

section \<open>The order service\<close>

text \<open>
  The three functions of \<open>orderService.js\<close>. The calls of the logger only write trace
  events and are left out, as are the two time limits (\<open>maxWait\<close>, \<open>timeout\<close>) given
  to the transaction.
\<close>

text \<open>
  An element of \<open>items\<close>. The quantity is the number the caller sent: the service
  compares it, multiplies with it and hands it to the store as it is, and neither the
  handler nor the service asks that it be an integer or, in the service, positive. The
  product is named by its key, an integer like the column \<open>id\<close> it is looked up in.
  A quantity that is not a number and a key that is not an integer are not modelled.
\<close>

record item =
  productId :: int
  quantity :: real

record order_summary =
  r_orderId :: int
  r_status :: string
  r_totalAmount :: money

subsection \<open>createOrder\<close>

text \<open>
  The loop \<open>for (const item of items)\<close> of \<open>createOrder\<close>, with its two accumulators
  \<open>orderItemsData\<close> and \<open>totalAmount\<close>. An error leaves the loop with the store as it
  is at the throw.
\<close>

fun createOrder_items ::
  "item list \<Rightarrow> item_data list \<Rightarrow> real \<Rightarrow> db \<Rightarrow> (error + item_data list \<times> real) \<times> db" where
  "createOrder_items [] orderItemsData total_amount s = (Inr (orderItemsData, total_amount), s)"
| "createOrder_items (it # its) orderItemsData total_amount s =
     (case product_findUnique (productId it) s of
        None \<Rightarrow> (Inl (ProductNotFound (productId it)), s)
      | Some product \<Rightarrow>
          if of_int (p_stock product) < quantity it
          then (Inl (InsufficientStock (p_name product) (p_stock product) (quantity it)), s)
          else
            (case product_update (productId it) (Decrement (quantity it)) s of
               Inl e \<Rightarrow> (Inl e, s)
             | Inr s' \<Rightarrow>
                 createOrder_items its
                   (orderItemsData @
                      [\<lparr>d_productId = productId it, d_quantity = quantity it,
                        d_price = p_price product\<rparr>])
                   (total_amount + of_int (p_price product) * quantity it) s'))"

text \<open>
  The body of the transaction. \<open>pay\<close> is the payment authorizer the module imports,
  \<open>now\<close> the timestamp the store gives the rows it creates.
\<close>

definition createOrder_tx ::
  "(real \<Rightarrow> int \<Rightarrow> payment_result) \<Rightarrow> nat \<Rightarrow> int \<Rightarrow> item list \<Rightarrow> db \<Rightarrow> (error + order_row) \<times> db" where
  "createOrder_tx pay now userId items s =
     (case user_findUnique userId s of
        None \<Rightarrow> (Inl UserNotFound, s)
      | Some user \<Rightarrow>
          (case createOrder_items items [] 0 s of
             (Inl e, s1) \<Rightarrow> (Inl e, s1)
           | (Inr (orderItemsData, total_amount), s1) \<Rightarrow>
               (case order_create now userId ''processing'' total_amount orderItemsData s1 of
                  (Inl e, s2) \<Rightarrow> (Inl e, s2)
                | (Inr ord, s2) \<Rightarrow>
                    if \<not> success (pay total_amount (o_id ord))
                    then (Inl PaymentFailed, s2)
                    else
                      (case payment_create now (o_id ord) total_amount ''succeeded'' s2 of
                         (Inl e, s3) \<Rightarrow> (Inl e, s3)
                       | (Inr _, s3) \<Rightarrow> (Inr ord, s3)))))"

text \<open>\<open>createOrder\<close>, with the authorizer it calls as a parameter.\<close>

definition createOrder_with ::
  "(real \<Rightarrow> int \<Rightarrow> payment_result) \<Rightarrow> nat \<Rightarrow> int \<Rightarrow> item list \<Rightarrow> db \<Rightarrow> (error + order_summary) \<times> db" where
  "createOrder_with pay now userId items s =
     (case transaction (createOrder_tx pay now userId items) s of
        (Inl e, s') \<Rightarrow> (Inl e, s')
      | (Inr result, s') \<Rightarrow>
          (Inr \<lparr>r_orderId = o_id result, r_status = o_status result,
                r_totalAmount = o_total_amount result\<rparr>, s'))"

text \<open>\<open>createOrder\<close> as the module wires it: the authorizer is \<open>processPayment\<close>.\<close>

definition createOrder :: "nat \<Rightarrow> int \<Rightarrow> item list \<Rightarrow> db \<Rightarrow> (error + order_summary) \<times> db" where
  "createOrder now userId items s = createOrder_with (processPayment now) now userId items s"

subsection \<open>getOrderDetails\<close>

record user_view =
  uv_id :: int
  uv_email :: string

record item_view =
  iv_productId :: int
  iv_productName :: string
  iv_quantity :: int
  iv_price :: money

record order_view =
  v_orderId :: int
  v_status :: string
  v_totalAmount :: money
  v_createdAt :: nat
  v_user :: user_view
  v_items :: "item_view list"

text \<open>
  \<open>order.orderItems.map(item => ...)\<close> over the items loaded with their product
  (\<open>include: { product: { select: { id, name } } }\<close>). The product is required by the
  schema; a row whose product does not resolve makes the query fail.
\<close>

fun getOrderDetails_items :: "order_item_row list \<Rightarrow> db \<Rightarrow> error + item_view list" where
  "getOrderDetails_items [] s = Inr []"
| "getOrderDetails_items (r # rs) s =
     (case product_findUnique (oi_product_id r) s of
        None \<Rightarrow> Inl InconsistentResult
      | Some product \<Rightarrow>
          (case getOrderDetails_items rs s of
             Inl e \<Rightarrow> Inl e
           | Inr vs \<Rightarrow>
               Inr (\<lparr>iv_productId = p_id product, iv_productName = p_name product,
                     iv_quantity = oi_quantity r, iv_price = oi_price r\<rparr> # vs)))"

text \<open>
  \<open>createdAt.toISOString()\<close> renders the instant of the row; the view carries the
  instant. The store is threaded through to show what the call leaves behind.
\<close>

definition getOrderDetails :: "int \<Rightarrow> db \<Rightarrow> (error + order_view) \<times> db" where
  "getOrderDetails orderId s =
     (case order_findUnique orderId s of
        None \<Rightarrow> (Inl OrderNotFound, s)
      | Some ord \<Rightarrow>
          (case user_findUnique (o_user_id ord) s of
             None \<Rightarrow> (Inl InconsistentResult, s)
           | Some user \<Rightarrow>
               (case getOrderDetails_items (order_orderItems orderId s) s of
                  Inl e \<Rightarrow> (Inl e, s)
                | Inr vs \<Rightarrow>
                    (Inr \<lparr>v_orderId = o_id ord, v_status = o_status ord,
                          v_totalAmount = o_total_amount ord, v_createdAt = o_created_at ord,
                          v_user = \<lparr>uv_id = u_id user, uv_email = u_email user\<rparr>,
                          v_items = vs\<rparr>, s))))"

subsection \<open>cancelOrder\<close>

record cancel_summary =
  c_orderId :: int
  c_status :: string

text \<open>The loop \<open>for (const item of order.orderItems)\<close> of \<open>cancelOrder\<close>.\<close>

fun cancelOrder_items :: "order_item_row list \<Rightarrow> db \<Rightarrow> (error + unit) \<times> db" where
  "cancelOrder_items [] s = (Inr (), s)"
| "cancelOrder_items (r # rs) s =
     (case product_update (oi_product_id r) (Increment (of_int (oi_quantity r))) s of
        Inl e \<Rightarrow> (Inl e, s)
      | Inr s' \<Rightarrow> cancelOrder_items rs s')"

definition cancelOrder_tx :: "int \<Rightarrow> db \<Rightarrow> (error + order_row) \<times> db" where
  "cancelOrder_tx orderId s =
     (case order_findUnique orderId s of
        None \<Rightarrow> (Inl OrderNotFound, s)
      | Some ord \<Rightarrow>
          if o_status ord = ''cancelled'' then (Inr ord, s)
          else if o_status ord = ''shipped'' \<or> o_status ord = ''delivered''
          then (Inl (NotCancelable (o_status ord)), s)
          else
            (case cancelOrder_items (order_orderItems orderId s) s of
               (Inl e, s1) \<Rightarrow> (Inl e, s1)
             | (Inr _, s1) \<Rightarrow> order_update_status orderId ''cancelled'' s1))"

definition cancelOrder :: "int \<Rightarrow> db \<Rightarrow> (error + cancel_summary) \<times> db" where
  "cancelOrder orderId s =
     (case transaction (cancelOrder_tx orderId) s of
        (Inl e, s') \<Rightarrow> (Inl e, s')
      | (Inr result, s') \<Rightarrow>
          (Inr \<lparr>c_orderId = o_id result, c_status = o_status result\<rparr>, s'))"

section \<open>What an order asks of the store\<close>

text \<open>
  The price a product has in a table of products; the quantity a list of requested
  items asks of one product, and what the store takes from the stock for them; the
  quantity the line items of a stored order record for one product.
\<close>

definition price_at :: "product_row list \<Rightarrow> int \<Rightarrow> money" where
  "price_at ps i = (case find (\<lambda>p. p_id p = i) ps of None \<Rightarrow> 0 | Some p \<Rightarrow> p_price p)"


definition taken_qty :: "item list \<Rightarrow> int \<Rightarrow> int" where
  "taken_qty its i =
     sum_list (map (\<lambda>it. int_column (quantity it)) (filter (\<lambda>it. productId it = i) its))"

text \<open>A table of products once the items of a request have been taken from its stock.\<close>

definition take_stock :: "item list \<Rightarrow> product_row list \<Rightarrow> product_row list" where
  "take_stock its ps = map (\<lambda>p. p\<lparr>p_stock := p_stock p - taken_qty its (p_id p)\<rparr>) ps"

definition recorded_qty :: "order_item_row list \<Rightarrow> int \<Rightarrow> int" where
  "recorded_qty rs i = sum_list (map oi_quantity (filter (\<lambda>r. oi_product_id r = i) rs))"

text \<open>A table of products once the line items of an order have been given back.\<close>

definition restore_stock :: "order_item_row list \<Rightarrow> product_row list \<Rightarrow> product_row list" where
  "restore_stock rs ps = map (\<lambda>p. p\<lparr>p_stock := p_stock p + recorded_qty rs (p_id p)\<rparr>) ps"

text \<open>The sum over the requested items of price times quantity, in hundredths.\<close>

definition items_total :: "product_row list \<Rightarrow> item list \<Rightarrow> real" where
  "items_total ps its =
     sum_list (map (\<lambda>it. of_int (price_at ps (productId it)) * quantity it) its)"

definition name_at :: "product_row list \<Rightarrow> int \<Rightarrow> string" where
  "name_at ps i = (case find (\<lambda>p. p_id p = i) ps of None \<Rightarrow> [] | Some p \<Rightarrow> p_name p)"

text \<open>The line-item snapshots of a request, and the rows they are stored as.\<close>

definition requested_data :: "product_row list \<Rightarrow> item list \<Rightarrow> item_data list" where
  "requested_data ps its =
     map (\<lambda>it. \<lparr>d_productId = productId it, d_quantity = quantity it,
                 d_price = price_at ps (productId it)\<rparr>) its"

fun line_items :: "int \<Rightarrow> int \<Rightarrow> item_data list \<Rightarrow> order_item_row list" where
  "line_items oid iid [] = []"
| "line_items oid iid (d # ds) =
     \<lparr>oi_id = iid, oi_order_id = oid, oi_product_id = d_productId d,
      oi_quantity = int_column (d_quantity d), oi_price = d_price d\<rparr>
       # line_items oid (iid + 1) ds"

text \<open>The content of the five relations, without the sequences.\<close>

definition rows ::
  "db \<Rightarrow> user_row list \<times> product_row list \<times> order_row list \<times> order_item_row list \<times> payment_row list" where
  "rows s = (users s, products s, orders s, order_items s, payments s)"

text \<open>Every key in use was drawn from its sequence: the sequences are ahead of the keys.\<close>

definition sequences_ahead :: "db \<Rightarrow> bool" where
  "sequences_ahead s \<longleftrightarrow>
     list_all (\<lambda>r. o_id r < orders_id_seq s) (orders s)
   \<and> list_all (\<lambda>r. oi_id r < order_items_id_seq s) (order_items s)
   \<and> list_all (\<lambda>r. pay_id r < payments_id_seq s) (payments s)"

text \<open>
  The stock a product has left for the next item once the items \<open>pre\<close> of the same
  request have been served, and the check of section 4.1, step 2 for a whole list: each
  item resolves and asks for no more than what the items before it have left.
\<close>

definition stock_left :: "product_row list \<Rightarrow> item list \<Rightarrow> int \<Rightarrow> int" where
  "stock_left ps pre i =
     (case find (\<lambda>p. p_id p = i) ps of
        None \<Rightarrow> 0
      | Some p \<Rightarrow> p_stock p - taken_qty pre i)"

fun checks_pass :: "product_row list \<Rightarrow> item list \<Rightarrow> item list \<Rightarrow> bool" where
  "checks_pass ps pre [] = True"
| "checks_pass ps pre (it # its) =
     (find (\<lambda>p. p_id p = productId it) ps \<noteq> None
      \<and> quantity it \<le> of_int (stock_left ps pre (productId it))
      \<and> checks_pass ps (pre @ [it]) its)"

text \<open>The status values of the schema.\<close>

definition order_statuses :: "string list" where
  "order_statuses = [''pending'', ''processing'', ''shipped'', ''delivered'', ''cancelled'']"

section \<open>The request handler of order creation\<close>

text \<open>
  The body of a request is a JavaScript value. A finite number is the real it denotes;
  the other numbers are \<open>NaN\<close> and the two infinities.
\<close>

datatype jsnum = Finite real | NaN | PosInfinity | NegInfinity

datatype jsval =
    JUndefined
  | JNull
  | JBool bool
  | JNum jsnum
  | JStr string
  | JArr "jsval list"
  | JObj "(string \<times> jsval) list"

text \<open>\<open>!v\<close> is \<open>\<not> truthy v\<close>.\<close>

fun truthy :: "jsval \<Rightarrow> bool" where
  "truthy JUndefined = False"
| "truthy JNull = False"
| "truthy (JBool b) = b"
| "truthy (JNum (Finite r)) = (r \<noteq> 0)"
| "truthy (JNum NaN) = False"
| "truthy (JNum PosInfinity) = True"
| "truthy (JNum NegInfinity) = True"
| "truthy (JStr s) = (s \<noteq> [])"
| "truthy (JArr xs) = True"
| "truthy (JObj fs) = True"

text \<open>
  \<open>v <= 0\<close>: the operand is converted to a number and compared. The conversion of
  strings, arrays and objects (through their string form) is the parameter \<open>conv\<close>.
\<close>

fun to_number :: "(jsval \<Rightarrow> jsnum) \<Rightarrow> jsval \<Rightarrow> jsnum" where
  "to_number conv JUndefined = NaN"
| "to_number conv JNull = Finite 0"
| "to_number conv (JBool b) = Finite (if b then 1 else 0)"
| "to_number conv (JNum n) = n"
| "to_number conv (JStr s) = conv (JStr s)"
| "to_number conv (JArr xs) = conv (JArr xs)"
| "to_number conv (JObj fs) = conv (JObj fs)"

fun num_le_zero :: "jsnum \<Rightarrow> bool" where
  "num_le_zero (Finite r) = (r \<le> 0)"
| "num_le_zero NaN = False"
| "num_le_zero PosInfinity = False"
| "num_le_zero NegInfinity = True"

definition le_zero :: "(jsval \<Rightarrow> jsnum) \<Rightarrow> jsval \<Rightarrow> bool" where
  "le_zero conv v = num_le_zero (to_number conv v)"

text \<open>
  Reading a property that no prototype defines (\<open>productId\<close>, \<open>quantity\<close>): a
  \<open>TypeError\<close> on \<open>null\<close> and \<open>undefined\<close>, the own property of an object,
  \<open>undefined\<close> on everything else. An exception is the message it carries.
\<close>

definition quoted :: "string \<Rightarrow> string" where
  "quoted k = [CHR 0x27] @ k @ [CHR 0x27]"

fun get_prop :: "jsval \<Rightarrow> string \<Rightarrow> string + jsval" where
  "get_prop JUndefined k =
     Inl (''Cannot read properties of undefined (reading '' @ quoted k @ '')'')"
| "get_prop JNull k =
     Inl (''Cannot read properties of null (reading '' @ quoted k @ '')'')"
| "get_prop (JObj fs) k = Inr (case map_of fs k of None \<Rightarrow> JUndefined | Some v \<Rightarrow> v)"
| "get_prop (JBool b) k = Inr JUndefined"
| "get_prop (JNum n) k = Inr JUndefined"
| "get_prop (JStr s) k = Inr JUndefined"
| "get_prop (JArr xs) k = Inr JUndefined"

text \<open>\<open>const { userId, items } = req.body\<close>.\<close>

fun destructure_body :: "jsval \<Rightarrow> string + jsval \<times> jsval" where
  "destructure_body JUndefined =
     Inl (''Cannot destructure property '' @ quoted ''userId'' @ '' of ''
            @ quoted ''req.body'' @ '' as it is undefined.'')"
| "destructure_body JNull =
     Inl (''Cannot destructure property '' @ quoted ''userId'' @ '' of ''
            @ quoted ''req.body'' @ '' as it is null.'')"
| "destructure_body (JObj fs) =
     Inr (case map_of fs ''userId'' of None \<Rightarrow> JUndefined | Some v \<Rightarrow> v,
          case map_of fs ''items'' of None \<Rightarrow> JUndefined | Some v \<Rightarrow> v)"
| "destructure_body (JBool b) = Inr (JUndefined, JUndefined)"
| "destructure_body (JNum n) = Inr (JUndefined, JUndefined)"
| "destructure_body (JStr s) = Inr (JUndefined, JUndefined)"
| "destructure_body (JArr xs) = Inr (JUndefined, JUndefined)"

text \<open>\<open>Array.isArray\<close>, and the elements of an array.\<close>

fun isArray :: "jsval \<Rightarrow> bool" where
  "isArray (JArr xs) = True"
| "isArray JUndefined = False"
| "isArray JNull = False"
| "isArray (JBool b) = False"
| "isArray (JNum n) = False"
| "isArray (JStr s) = False"
| "isArray (JObj fs) = False"

fun elements :: "jsval \<Rightarrow> jsval list" where
  "elements (JArr xs) = xs"
| "elements JUndefined = []"
| "elements JNull = []"
| "elements (JBool b) = []"
| "elements (JNum n) = []"
| "elements (JStr s) = []"
| "elements (JObj fs) = []"

text \<open>\<open>String.prototype.includes\<close>.\<close>

fun starts_with :: "string \<Rightarrow> string \<Rightarrow> bool" where
  "starts_with s [] = True"
| "starts_with [] (c # cs) = False"
| "starts_with (d # ds) (c # cs) = (d = c \<and> starts_with ds cs)"

fun str_includes :: "string \<Rightarrow> string \<Rightarrow> bool" where
  "str_includes [] sub = starts_with [] sub"
| "str_includes (c # cs) sub = (starts_with (c # cs) sub \<or> str_includes cs sub)"

datatype 'a reply = ErrorJson string | Json 'a

record 'a response =
  res_status :: nat
  res_json :: "'a reply"

text \<open>
  The loop \<open>for (const item of items)\<close> of the handler: \<open>Inr False\<close> when an item is
  refused (the handler returns 400), \<open>Inr True\<close> when the loop ends.
\<close>

fun validate_items :: "(jsval \<Rightarrow> jsnum) \<Rightarrow> jsval list \<Rightarrow> string + bool" where
  "validate_items conv [] = Inr True"
| "validate_items conv (item # rest) =
     (case get_prop item ''productId'' of
        Inl m \<Rightarrow> Inl m
      | Inr pid \<Rightarrow>
          if \<not> truthy pid then Inr False
          else
            (case get_prop item ''quantity'' of
               Inl m \<Rightarrow> Inl m
             | Inr q \<Rightarrow>
                 if \<not> truthy q \<or> le_zero conv q then Inr False
                 else validate_items conv rest))"

text \<open>The \<open>catch\<close> block of the handler.\<close>

definition createOrder_catch :: "string \<Rightarrow> 'a response" where
  "createOrder_catch m =
     (if str_includes m ''not found'' \<or> str_includes m ''Insufficient stock''
      then \<lparr>res_status = 400, res_json = ErrorJson m\<rparr>
      else \<lparr>res_status = 500, res_json = ErrorJson ''Internal server error''\<rparr>)"

text \<open>
  \<open>createOrder(req, res)\<close> of the order controller. \<open>service\<close> is
  \<open>orderService.createOrder\<close>, run on a store of any type; its \<open>Inl\<close> is the message
  of the error it throws.
\<close>

definition orderController_createOrder ::
  "(jsval \<Rightarrow> jsnum) \<Rightarrow> (jsval \<Rightarrow> jsval \<Rightarrow> 's \<Rightarrow> (string + 'a) \<times> 's) \<Rightarrow> jsval \<Rightarrow> 's
     \<Rightarrow> 'a response \<times> 's" where
  "orderController_createOrder conv service body s =
     (case destructure_body body of
        Inl m \<Rightarrow> (createOrder_catch m, s)
      | Inr (userId, its) \<Rightarrow>
          if \<not> truthy userId \<or> \<not> truthy its \<or> \<not> isArray its \<or> length (elements its) = 0
          then (\<lparr>res_status = 400,
                 res_json = ErrorJson ''Invalid request. userId and items array are required.''\<rparr>, s)
          else
            (case validate_items conv (elements its) of
               Inl m \<Rightarrow> (createOrder_catch m, s)
             | Inr False \<Rightarrow>
                 (\<lparr>res_status = 400,
                   res_json = ErrorJson ''Each item must have productId and quantity > 0''\<rparr>, s)
             | Inr True \<Rightarrow>
                 (case service userId its s of
                    (Inl m, s') \<Rightarrow> (createOrder_catch m, s')
                  | (Inr ord, s') \<Rightarrow> (\<lparr>res_status = 201, res_json = Json ord\<rparr>, s'))))"

text \<open>
  The requests that the handler is to refuse, in the words of the interface: a body
  without \<open>userId\<close>, without \<open>items\<close>, with \<open>items\<close> that is not an array or is
  empty, or with an item whose \<open>productId\<close> is missing or falsy or whose \<open>quantity\<close> is
  missing, zero or negative.
\<close>

fun own_prop :: "jsval \<Rightarrow> string \<Rightarrow> jsval" where
  "own_prop (JObj fs) k = (case map_of fs k of None \<Rightarrow> JUndefined | Some v \<Rightarrow> v)"
| "own_prop JUndefined k = JUndefined"
| "own_prop JNull k = JUndefined"
| "own_prop (JBool b) k = JUndefined"
| "own_prop (JNum n) k = JUndefined"
| "own_prop (JStr s) k = JUndefined"
| "own_prop (JArr xs) k = JUndefined"

fun zero_or_negative :: "jsval \<Rightarrow> bool" where
  "zero_or_negative (JNum (Finite r)) = (r \<le> 0)"
| "zero_or_negative (JNum NegInfinity) = True"
| "zero_or_negative (JNum NaN) = False"
| "zero_or_negative (JNum PosInfinity) = False"
| "zero_or_negative JUndefined = False"
| "zero_or_negative JNull = False"
| "zero_or_negative (JBool b) = False"
| "zero_or_negative (JStr s) = False"
| "zero_or_negative (JArr xs) = False"
| "zero_or_negative (JObj fs) = False"

definition item_invalid :: "jsval \<Rightarrow> bool" where
  "item_invalid x \<longleftrightarrow>
     \<not> truthy (own_prop x ''productId'')
   \<or> own_prop x ''quantity'' = JUndefined
   \<or> zero_or_negative (own_prop x ''quantity'')"

definition request_invalid :: "jsval \<Rightarrow> bool" where
  "request_invalid body \<longleftrightarrow>
     own_prop body ''userId'' = JUndefined
   \<or> own_prop body ''items'' = JUndefined
   \<or> \<not> isArray (own_prop body ''items'')
   \<or> elements (own_prop body ''items'') = []
   \<or> list_ex item_invalid (elements (own_prop body ''items''))"

section \<open>The seeded store\<close>

text \<open>
  The rows the seed script inserts into an empty store: two users and five products,
  one of them out of stock.
\<close>

definition seed_db :: "nat \<Rightarrow> db" where
  "seed_db now =
     \<lparr>users =
        [\<lparr>u_id = 1, u_email = ''venkat@example.com'', u_password = ''hashed_password_123'',
          u_created_at = now\<rparr>,
         \<lparr>u_id = 2, u_email = ''sai@example.com'', u_password = ''hashed_password_456'',
          u_created_at = now\<rparr>],
      products =
        [\<lparr>p_id = 1, p_name = ''Laptop'', p_price = 5500099, p_stock = 10\<rparr>,
         \<lparr>p_id = 2, p_name = ''Wireless Mouse'', p_price = 120000, p_stock = 50\<rparr>,
         \<lparr>p_id = 3, p_name = ''USB-C Cable'', p_price = 170000, p_stock = 100\<rparr>,
         \<lparr>p_id = 4, p_name = ''Keyboard'', p_price = 80000, p_stock = 25\<rparr>,
         \<lparr>p_id = 5, p_name = ''iPhone'', p_price = 10000000, p_stock = 0\<rparr>],
      orders = [], order_items = [], payments = [],
      orders_id_seq = 1, order_items_id_seq = 1, payments_id_seq = 1\<rparr>"

text \<open>
  A first order on the seeded store, by the first user: two laptops and one mouse, at
  time 5, with the payment stub run at time 7; and the store that order leaves.
\<close>

definition seed_order :: "item list" where
  "seed_order = [\<lparr>productId = 1, quantity = 2\<rparr>, \<lparr>productId = 2, quantity = 1\<rparr>]"

definition seed_db_ordered :: db where
  "seed_db_ordered =
     (seed_db 0)
       \<lparr>products :=
          [\<lparr>p_id = 1, p_name = ''Laptop'', p_price = 5500099, p_stock = 8\<rparr>,
           \<lparr>p_id = 2, p_name = ''Wireless Mouse'', p_price = 120000, p_stock = 49\<rparr>,
           \<lparr>p_id = 3, p_name = ''USB-C Cable'', p_price = 170000, p_stock = 100\<rparr>,
           \<lparr>p_id = 4, p_name = ''Keyboard'', p_price = 80000, p_stock = 25\<rparr>,
           \<lparr>p_id = 5, p_name = ''iPhone'', p_price = 10000000, p_stock = 0\<rparr>],
        orders :=
          [\<lparr>o_id = 1, o_user_id = 1, o_status = ''processing'',
            o_total_amount = 11120198, o_created_at = 5\<rparr>],
        order_items :=
          [\<lparr>oi_id = 1, oi_order_id = 1, oi_product_id = 1, oi_quantity = 2,
            oi_price = 5500099\<rparr>,
           \<lparr>oi_id = 2, oi_order_id = 1, oi_product_id = 2, oi_quantity = 1,
            oi_price = 120000\<rparr>],
        payments :=
          [\<lparr>pay_id = 1, pay_order_id = 1, pay_amount = 11120198,
            pay_status = ''succeeded'', pay_created_at = 5\<rparr>],
        orders_id_seq := 2, order_items_id_seq := 3, payments_id_seq := 2\<rparr>"

text \<open>
  The same store with that order shipped, and with that order cancelled and its stock
  given back.
\<close>

definition seed_db_shipped :: db where
  "seed_db_shipped =
     seed_db_ordered
       \<lparr>orders :=
          [\<lparr>o_id = 1, o_user_id = 1, o_status = ''shipped'',
            o_total_amount = 11120198, o_created_at = 5\<rparr>]\<rparr>"

definition seed_db_cancelled :: db where
  "seed_db_cancelled =
     seed_db_ordered
       \<lparr>products := products (seed_db 0),
        orders :=
          [\<lparr>o_id = 1, o_user_id = 1, o_status = ''cancelled'',
            o_total_amount = 11120198, o_created_at = 5\<rparr>]\<rparr>"

section \<open>Facts about the model\<close>

subsection \<open>Numbers written to the store\<close>

lemma int_column_of_int [simp]: "int_column (of_int k) = k"
  by (simp add: int_column_def)

lemma decimal_column_of_int [simp]: "decimal_column (of_int k) = k"
proof (cases "0 \<le> k")
  case True
  have "\<lfloor>real_of_int k + 1 / 2\<rfloor> = k" by linarith
  with True show ?thesis by (simp add: decimal_column_def)
next
  case False
  have "\<lceil>real_of_int k - 1 / 2\<rceil> = k" by linarith
  with False show ?thesis by (simp add: decimal_column_def)
qed

lemma int_column_numeral [simp]:
  "int_column (numeral n) = numeral n" "int_column 0 = 0" "int_column 1 = 1"
  using int_column_of_int [of "numeral n"] int_column_of_int [of 0] int_column_of_int [of 1]
  by simp_all

lemma decimal_column_numeral [simp]:
  "decimal_column (numeral n) = numeral n" "decimal_column 0 = 0" "decimal_column 1 = 1"
  using decimal_column_of_int [of "numeral n"] decimal_column_of_int [of 0]
    decimal_column_of_int [of 1]
  by simp_all



subsection \<open>Lookups, stock and sequences\<close>

lemma find_map_id:
  assumes "\<And>p. p_id (g p) = p_id p"
  shows "find (\<lambda>p. p_id p = j) (map g ps) = map_option g (find (\<lambda>p. p_id p = j) ps)"
  using assms by (induction ps) auto

lemma find_id: "find (\<lambda>p. p_id p = i) ps = Some p \<Longrightarrow> p_id p = i"
  by (auto simp: find_Some_iff)

lemma find_map_oid:
  assumes "\<And>r. o_id (g r) = o_id r"
  shows "find (\<lambda>r. o_id r = j) (map g rs) = map_option g (find (\<lambda>r. o_id r = j) rs)"
  using assms by (induction rs) auto

lemma find_oid: "find (\<lambda>r. o_id r = i) rs = Some ord \<Longrightarrow> o_id ord = i"
  by (auto simp: find_Some_iff)


lemma find_None_less:
  "list_all (\<lambda>r. f r < (n::int)) xs \<Longrightarrow> find (\<lambda>r. f r = n) xs = None"
  by (induction xs) auto

lemma product_update_Inr:
  "product_update i f s = Inr s' \<Longrightarrow>
     s' = s\<lparr>products := map (\<lambda>p. if p_id p = i then p\<lparr>p_stock := apply_stock_op f (p_stock p)\<rparr> else p) (products s)\<rparr>"
  by (auto simp: product_update_def split: option.splits)

lemma product_update_found:
  "product_findUnique i s = Some p \<Longrightarrow> \<exists>s'. product_update i f s = Inr s'"
  by (simp add: product_update_def)

lemma price_at_update:
  "price_at (map (\<lambda>p. if p_id p = i then p\<lparr>p_stock := h (p_stock p)\<rparr> else p) ps) j = price_at ps j"
  by (induction ps) (auto simp: price_at_def)

lemma taken_qty_Cons:
  "taken_qty (it # its) i =
     (if productId it = i then int_column (quantity it) else 0) + taken_qty its i"
  by (simp add: taken_qty_def)

lemma taken_qty_append:
  "taken_qty (a @ b) i = taken_qty a i + taken_qty b i"
  by (simp add: taken_qty_def)

lemma taken_qty_Nil: "taken_qty [] i = 0"
  by (simp add: taken_qty_def)

lemma recorded_qty_Cons:
  "recorded_qty (r # rs) i = (if oi_product_id r = i then oi_quantity r else 0) + recorded_qty rs i"
  by (simp add: recorded_qty_def)

lemma find_take_stock:
  "find (\<lambda>p. p_id p = i) (take_stock pre ps) =
     map_option (\<lambda>p. p\<lparr>p_stock := p_stock p - taken_qty pre (p_id p)\<rparr>) (find (\<lambda>p. p_id p = i) ps)"
  unfolding take_stock_def by (rule find_map_id) simp

lemma stock_left_take_stock:
  "stock_left (take_stock pre ps) q i = stock_left ps (pre @ q) i"
  by (auto simp: stock_left_def find_take_stock taken_qty_append split: option.splits dest: find_id)

lemma checks_pass_shift:
  "checks_pass (take_stock pre ps) q its = checks_pass ps (pre @ q) its"
  by (induction its arbitrary: q) (auto simp: find_take_stock stock_left_take_stock)

lemma take_stock_single:
  "map (\<lambda>q. if p_id q = productId it then q\<lparr>p_stock := apply_stock_op (Decrement (quantity it)) (p_stock q)\<rparr> else q) ps
     = take_stock [it] ps"
  by (simp add: take_stock_def taken_qty_def)

lemma checks_pass_split:
  "checks_pass ps pre its \<or>
   (\<exists>a it b. its = a @ it # b \<and> checks_pass ps pre a
      \<and> (find (\<lambda>p. p_id p = productId it) ps = None
          \<or> of_int (stock_left ps (pre @ a) (productId it)) < quantity it))"
proof (induction its arbitrary: pre)
  case Nil
  then show ?case by simp
next
  case (Cons it its)
  show ?case
  proof (cases "find (\<lambda>p. p_id p = productId it) ps \<noteq> None
      \<and> quantity it \<le> of_int (stock_left ps pre (productId it))")
    case False
    then have "it # its = [] @ it # its \<and> checks_pass ps pre []
      \<and> (find (\<lambda>p. p_id p = productId it) ps = None
          \<or> of_int (stock_left ps (pre @ []) (productId it)) < quantity it)"
      by auto
    then show ?thesis by blast
  next
    case True
    from Cons.IH [of "pre @ [it]"] show ?thesis
    proof
      assume "checks_pass ps (pre @ [it]) its"
      with True show ?thesis by simp
    next
      assume "\<exists>a it' b. its = a @ it' # b \<and> checks_pass ps (pre @ [it]) a
        \<and> (find (\<lambda>p. p_id p = productId it') ps = None
            \<or> of_int (stock_left ps ((pre @ [it]) @ a) (productId it')) < quantity it')"
      then obtain a it' b where h: "its = a @ it' # b" "checks_pass ps (pre @ [it]) a"
        "find (\<lambda>p. p_id p = productId it') ps = None
            \<or> of_int (stock_left ps ((pre @ [it]) @ a) (productId it')) < quantity it'"
        by blast
      have "it # its = (it # a) @ it' # b \<and> checks_pass ps pre (it # a)
        \<and> (find (\<lambda>p. p_id p = productId it') ps = None
            \<or> of_int (stock_left ps (pre @ (it # a)) (productId it')) < quantity it')"
        using h True by simp
      then show ?thesis by blast
    qed
  qed
qed

lemma rollback_products: "rollback s (s\<lparr>products := ps\<rparr>) = s"
  by (simp add: rollback_def)

lemma rollback_self: "rollback s s = s"
  by (simp add: rollback_def)



subsection \<open>Creating rows\<close>

lemma order_items_create_Inr:
  "order_items_create oid ds s = (Inr u, s') \<Longrightarrow>
     s' = s\<lparr>order_items := order_items s @ line_items oid (order_items_id_seq s) ds,
            order_items_id_seq := order_items_id_seq s + int (length ds)\<rparr>"
proof (induction ds arbitrary: s)
  case Nil
  then show ?case by simp
next
  case (Cons d ds)
  let ?s1 = "s\<lparr>order_items_id_seq := order_items_id_seq s + 1\<rparr>"
  let ?s2 = "?s1\<lparr>order_items := order_items ?s1 @
                      [\<lparr>oi_id = order_items_id_seq s, oi_order_id = oid, oi_product_id = d_productId d,
                        oi_quantity = int_column (d_quantity d), oi_price = d_price d\<rparr>]\<rparr>"
  from Cons.prems have rec: "order_items_create oid ds ?s2 = (Inr u, s')"
    by (simp add: Let_def split: if_splits)
  show ?case using Cons.IH [OF rec] by simp
qed

lemma line_items_proj:
  "map (\<lambda>r. (oi_order_id r, oi_product_id r, oi_quantity r, oi_price r)) (line_items oid iid ds)
     = map (\<lambda>d. (oid, d_productId d, int_column (d_quantity d), d_price d)) ds"
  by (induction ds arbitrary: iid) auto


lemma order_create_Inr:
  assumes "order_create now userId st tot ds s = (Inr ord, s')"
  shows "ord = \<lparr>o_id = orders_id_seq s, o_user_id = userId, o_status = st,
                 o_total_amount = decimal_column tot, o_created_at = now\<rparr>"
    and "find (\<lambda>r. o_id r = orders_id_seq s) (orders s) = None"
    and "s' = s\<lparr>orders := orders s @ [ord],
                 order_items := order_items s @ line_items (orders_id_seq s) (order_items_id_seq s) ds,
                 orders_id_seq := orders_id_seq s + 1,
                 order_items_id_seq := order_items_id_seq s + int (length ds)\<rparr>"
proof -
  let ?ord = "\<lparr>o_id = orders_id_seq s, o_user_id = userId, o_status = st,
                 o_total_amount = decimal_column tot, o_created_at = now\<rparr>"
  let ?s1 = "s\<lparr>orders_id_seq := orders_id_seq s + 1\<rparr>"
  from assms show nf: "find (\<lambda>r. o_id r = orders_id_seq s) (orders s) = None"
    by (auto simp: order_create_def Let_def split: if_splits)
  from assms nf obtain u where
    c: "order_items_create (orders_id_seq s) ds (?s1\<lparr>orders := orders ?s1 @ [?ord]\<rparr>) = (Inr u, s')"
    and o: "ord = ?ord"
    by (auto simp: order_create_def Let_def split: prod.splits sum.splits)
  show "ord = ?ord" by (rule o)
  show "s' = s\<lparr>orders := orders s @ [ord],
                 order_items := order_items s @ line_items (orders_id_seq s) (order_items_id_seq s) ds,
                 orders_id_seq := orders_id_seq s + 1,
                 order_items_id_seq := order_items_id_seq s + int (length ds)\<rparr>"
    using order_items_create_Inr [OF c] o by simp
qed


lemma order_items_create_Inl:
  "order_items_create oid ds s = (Inl e, s') \<Longrightarrow> \<exists>c. e = UniqueViolation c"
  by (induction ds arbitrary: s) (auto simp: Let_def split: if_splits)

lemma order_create_Inl:
  "order_create now userId st tot ds s = (Inl e, s') \<Longrightarrow> \<exists>c. e = UniqueViolation c"
  by (auto simp: order_create_def Let_def split: if_splits prod.splits sum.splits
        dest: order_items_create_Inl)

lemma payment_create_Inl:
  "payment_create now oid amount st s = (Inl e, s') \<Longrightarrow> \<exists>c. e = UniqueViolation c"
  by (auto simp: payment_create_def Let_def split: if_splits)

lemma order_items_create_ok:
  "list_all (\<lambda>r. oi_id r < order_items_id_seq s) (order_items s) \<Longrightarrow>
     \<exists>s'. order_items_create oid ds s = (Inr (), s')"
proof (induction ds arbitrary: s)
  case Nil
  then show ?case by simp
next
  case (Cons d ds)
  let ?s1 = "s\<lparr>order_items_id_seq := order_items_id_seq s + 1\<rparr>"
  let ?s2 = "?s1\<lparr>order_items := order_items ?s1 @
                      [\<lparr>oi_id = order_items_id_seq s, oi_order_id = oid, oi_product_id = d_productId d,
                        oi_quantity = int_column (d_quantity d), oi_price = d_price d\<rparr>]\<rparr>"
  have fresh: "find (\<lambda>r. oi_id r = order_items_id_seq s) (order_items s) = None"
    using Cons.prems by (rule find_None_less)
  have "list_all (\<lambda>r. oi_id r < order_items_id_seq ?s2) (order_items ?s2)"
    using Cons.prems by (auto simp: list_all_iff)
  from Cons.IH [OF this] obtain s' where "order_items_create oid ds ?s2 = (Inr (), s')" by blast
  then show ?case using fresh by (simp add: Let_def)
qed

lemma order_create_ok:
  assumes "list_all (\<lambda>r. o_id r < orders_id_seq s) (orders s)"
      and "list_all (\<lambda>r. oi_id r < order_items_id_seq s) (order_items s)"
  shows "\<exists>ord s'. order_create now userId st tot ds s = (Inr ord, s')"
proof -
  let ?ord = "\<lparr>o_id = orders_id_seq s, o_user_id = userId, o_status = st,
                 o_total_amount = decimal_column tot, o_created_at = now\<rparr>"
  let ?s1 = "s\<lparr>orders_id_seq := orders_id_seq s + 1\<rparr>"
  let ?s2 = "?s1\<lparr>orders := orders ?s1 @ [?ord]\<rparr>"
  have fresh: "find (\<lambda>r. o_id r = orders_id_seq s) (orders s) = None"
    using assms(1) by (rule find_None_less)
  have "list_all (\<lambda>r. oi_id r < order_items_id_seq ?s2) (order_items ?s2)"
    using assms(2) by simp
  from order_items_create_ok [OF this] obtain s' where
    "order_items_create (orders_id_seq s) ds ?s2 = (Inr (), s')" by blast
  then show ?thesis using fresh by (simp add: order_create_def Let_def)
qed

subsection \<open>The item loop of createOrder\<close>

lemma createOrder_items_Inr:
  "createOrder_items its ds tot s = (Inr (ds', tot'), s') \<Longrightarrow>
     ds' = ds @ map (\<lambda>it. \<lparr>d_productId = productId it, d_quantity = quantity it,
                           d_price = price_at (products s) (productId it)\<rparr>) its
   \<and> tot' = tot + items_total (products s) its
   \<and> s' = s\<lparr>products := map (\<lambda>p. p\<lparr>p_stock := p_stock p - taken_qty its (p_id p)\<rparr>) (products s)\<rparr>"
proof (induction its arbitrary: ds tot s)
  case Nil
  then show ?case by (simp add: items_total_def taken_qty_def)
next
  case (Cons it its)
  from Cons.prems obtain p where p: "product_findUnique (productId it) s = Some p"
    by (auto split: option.splits)
  with Cons.prems have ge: "\<not> of_int (p_stock p) < quantity it"
    by (auto split: if_splits)
  from p obtain s1 where s1: "product_update (productId it) (Decrement (quantity it)) s = Inr s1"
    using product_update_found by blast
  let ?g = "\<lambda>q. if p_id q = productId it then q\<lparr>p_stock := apply_stock_op (Decrement (quantity it)) (p_stock q)\<rparr> else q"
  have s1eq: "s1 = s\<lparr>products := map ?g (products s)\<rparr>"
    using product_update_Inr [OF s1] .
  have rec: "createOrder_items its
        (ds @ [\<lparr>d_productId = productId it, d_quantity = quantity it, d_price = p_price p\<rparr>])
        (tot + of_int (p_price p) * quantity it) s1 = (Inr (ds', tot'), s')"
    using Cons.prems p ge s1 by simp
  have pr: "price_at (products s) (productId it) = p_price p"
    using p by (simp add: price_at_def product_findUnique_def)
  have pa: "\<And>j. price_at (products s1) j = price_at (products s) j"
    unfolding s1eq by (simp add: price_at_update)
  note IH = Cons.IH [OF rec]
  have 1: "ds' = ds @ map (\<lambda>it. \<lparr>d_productId = productId it, d_quantity = quantity it,
                           d_price = price_at (products s) (productId it)\<rparr>) (it # its)"
    using IH pr pa by simp
  have 2: "tot' = tot + items_total (products s) (it # its)"
    using IH pr pa by (simp add: items_total_def)
  have 3: "s' = s\<lparr>products := map (\<lambda>p. p\<lparr>p_stock := p_stock p - taken_qty (it # its) (p_id p)\<rparr>) (products s)\<rparr>"
    using IH unfolding s1eq by (auto simp: taken_qty_Cons)
  from 1 2 3 show ?case by blast
qed


lemma createOrder_items_pass:
  "checks_pass (products s) [] its \<Longrightarrow> \<exists>r s'. createOrder_items its ds tot s = (Inr r, s')"
proof (induction its arbitrary: s ds tot)
  case Nil
  then show ?case by simp
next
  case (Cons it its)
  from Cons.prems obtain p where p: "product_findUnique (productId it) s = Some p"
    by (auto simp: product_findUnique_def)
  from Cons.prems p have ge: "\<not> of_int (p_stock p) < quantity it"
    by (simp add: stock_left_def product_findUnique_def taken_qty_Nil)
  from p obtain s1 where s1: "product_update (productId it) (Decrement (quantity it)) s = Inr s1"
    using product_update_found by blast
  have "products s1 = take_stock [it] (products s)"
    unfolding product_update_Inr [OF s1] by (simp add: take_stock_single)
  with Cons.prems have "checks_pass (products s1) [] its"
    by (simp add: checks_pass_shift)
  from Cons.IH [OF this] show ?case
    using p ge s1 by simp
qed

lemma createOrder_items_pass_eq:
  assumes "checks_pass (products s) [] its"
  shows "createOrder_items its ds tot s =
           (Inr (ds @ requested_data (products s) its, tot + items_total (products s) its),
            s\<lparr>products := take_stock its (products s)\<rparr>)"
proof -
  from createOrder_items_pass [OF assms] obtain r s'
    where r: "createOrder_items its ds tot s = (Inr r, s')" by blast
  obtain ds' tot' where [simp]: "r = (ds', tot')" by (cases r)
  from createOrder_items_Inr [of its ds tot s ds' tot' s'] r show ?thesis
    by (simp add: requested_data_def take_stock_def)
qed

lemma createOrder_items_append:
  "createOrder_items (a @ b) ds tot s =
     (case createOrder_items a ds tot s of
        (Inl e, s1) \<Rightarrow> (Inl e, s1)
      | (Inr (ds1, tot1), s1) \<Rightarrow> createOrder_items b ds1 tot1 s1)"
proof (induction a arbitrary: ds tot s)
  case Nil
  then show ?case by simp
next
  case (Cons it a)
  show ?case
    by (simp add: Cons.IH split: option.splits sum.splits)
qed

lemma createOrder_items_not_found:
  assumes "checks_pass (products s) [] pre"
      and "product_findUnique (productId it) s = None"
  shows "createOrder_items (pre @ it # post) ds tot s =
           (Inl (ProductNotFound (productId it)), s\<lparr>products := take_stock pre (products s)\<rparr>)"
  using assms(2)
  by (simp add: createOrder_items_append createOrder_items_pass_eq [OF assms(1)]
        product_findUnique_def find_take_stock)

lemma createOrder_items_insufficient:
  assumes "checks_pass (products s) [] pre"
      and "product_findUnique (productId it) s = Some p"
      and "of_int (stock_left (products s) pre (productId it)) < quantity it"
  shows "createOrder_items (pre @ it # post) ds tot s =
           (Inl (InsufficientStock (p_name p) (stock_left (products s) pre (productId it)) (quantity it)),
            s\<lparr>products := take_stock pre (products s)\<rparr>)"
proof -
  have pid: "p_id p = productId it"
    using assms(2) by (auto simp: product_findUnique_def dest: find_id)
  have sl: "stock_left (products s) pre (productId it) = p_stock p - taken_qty pre (productId it)"
    using assms(2) by (simp add: stock_left_def product_findUnique_def)
  show ?thesis
    using assms(2,3) pid sl
    by (simp add: createOrder_items_append createOrder_items_pass_eq [OF assms(1)]
        product_findUnique_def find_take_stock)
qed

lemma createOrder_items_Inl:
  "createOrder_items its ds tot s = (Inl e, s') \<Longrightarrow>
     (\<exists>i. e = ProductNotFound i) \<or> (\<exists>n a r. e = InsufficientStock n a r)"
proof (induction its arbitrary: ds tot s)
  case Nil
  then show ?case by simp
next
  case (Cons it its)
  show ?case
  proof (cases "product_findUnique (productId it) s")
    case None
    with Cons.prems show ?thesis by auto
  next
    case (Some p)
    then obtain s1 where s1: "product_update (productId it) (Decrement (quantity it)) s = Inr s1"
      using product_update_found by blast
    show ?thesis
    proof (cases "of_int (p_stock p) < quantity it")
      case True
      with Cons.prems Some show ?thesis by auto
    next
      case False
      with Cons.prems Some s1 have "createOrder_items its
        (ds @ [\<lparr>d_productId = productId it, d_quantity = quantity it, d_price = p_price p\<rparr>])
        (tot + of_int (p_price p) * quantity it) s1 = (Inl e, s')"
        by simp
      from Cons.IH [OF this] show ?thesis .
    qed
  qed
qed

subsection \<open>The transaction of createOrder\<close>


lemma createOrder_with_Inr:
  "createOrder_with pay now userId items s = (Inr r, s') \<longleftrightarrow>
     (\<exists>ord. createOrder_tx pay now userId items s = (Inr ord, s')
        \<and> r = \<lparr>r_orderId = o_id ord, r_status = o_status ord, r_totalAmount = o_total_amount ord\<rparr>)"
  by (auto simp: createOrder_with_def transaction_def split: prod.splits sum.splits)

lemma createOrder_with_Inl:
  "createOrder_with pay now userId items s = (Inl e, s') \<longleftrightarrow>
     (\<exists>s1. createOrder_tx pay now userId items s = (Inl e, s1) \<and> s' = rollback s s1)"
  by (auto simp: createOrder_with_def transaction_def split: prod.splits sum.splits)

lemma createOrder_tx_no_user:
  "user_findUnique userId s = None \<Longrightarrow> createOrder_tx pay now userId items s = (Inl UserNotFound, s)"
  by (simp add: createOrder_tx_def)

lemma createOrder_with_no_user:
  "user_findUnique userId s = None \<Longrightarrow> createOrder_with pay now userId items s = (Inl UserNotFound, s)"
  by (simp add: createOrder_with_def transaction_def createOrder_tx_no_user rollback_def)

lemma createOrder_with_not_found:
  assumes "user_findUnique userId s \<noteq> None" "checks_pass (products s) [] pre"
      and "product_findUnique (productId it) s = None"
  shows "createOrder_with pay now userId (pre @ it # post) s = (Inl (ProductNotFound (productId it)), s)"
  using assms(1)
  by (auto simp: createOrder_with_def transaction_def createOrder_tx_def rollback_products
        createOrder_items_not_found [OF assms(2,3)])

lemma createOrder_with_insufficient:
  assumes "user_findUnique userId s \<noteq> None" "checks_pass (products s) [] pre"
      and "product_findUnique (productId it) s = Some p"
      and "of_int (stock_left (products s) pre (productId it)) < quantity it"
  shows "createOrder_with pay now userId (pre @ it # post) s =
           (Inl (InsufficientStock (p_name p) (stock_left (products s) pre (productId it)) (quantity it)), s)"
  using assms(1)
  by (auto simp: createOrder_with_def transaction_def createOrder_tx_def rollback_products
        createOrder_items_insufficient [OF assms(2,3,4)])

lemma createOrder_tx_payment_failed:
  assumes u: "user_findUnique userId s \<noteq> None"
      and c: "checks_pass (products s) [] items"
      and q: "sequences_ahead s"
      and f: "\<not> success (pay (items_total (products s) items) (orders_id_seq s))"
  shows "createOrder_tx pay now userId items s =
           (Inl PaymentFailed,
            s\<lparr>products := take_stock items (products s),
              orders := orders s @
                [\<lparr>o_id = orders_id_seq s, o_user_id = userId, o_status = ''processing'',
                  o_total_amount = decimal_column (items_total (products s) items), o_created_at = now\<rparr>],
              order_items := order_items s @
                line_items (orders_id_seq s) (order_items_id_seq s)
                  (requested_data (products s) items),
              orders_id_seq := orders_id_seq s + 1,
              order_items_id_seq := order_items_id_seq s + int (length items)\<rparr>)"
proof -
  let ?s1 = "s\<lparr>products := take_stock items (products s)\<rparr>"
  let ?tot = "items_total (products s) items"
  let ?ds = "requested_data (products s) items"
  have l: "createOrder_items items [] 0 s = (Inr (?ds, ?tot), ?s1)"
    using createOrder_items_pass_eq [OF c, of "[]" 0] by simp
  have "list_all (\<lambda>r. o_id r < orders_id_seq ?s1) (orders ?s1)"
    and "list_all (\<lambda>r. oi_id r < order_items_id_seq ?s1) (order_items ?s1)"
    using q by (simp_all add: sequences_ahead_def)
  from order_create_ok [OF this] obtain ord s2 where
    oc: "order_create now userId ''processing'' ?tot ?ds ?s1 = (Inr ord, s2)" by blast
  note C = order_create_Inr [OF oc]
  have oid: "o_id ord = orders_id_seq s"
    using C(1) by simp
  have tx: "createOrder_tx pay now userId items s = (Inl PaymentFailed, s2)"
    using u l oc f oid by (auto simp: createOrder_tx_def)
  show ?thesis unfolding tx C(3) using C(1) by (simp add: requested_data_def)
qed

lemma createOrder_with_payment_failed:
  assumes u: "user_findUnique userId s \<noteq> None"
      and c: "checks_pass (products s) [] items"
      and q: "sequences_ahead s"
      and f: "\<not> success (pay (items_total (products s) items) (orders_id_seq s))"
  shows "createOrder_with pay now userId items s =
           (Inl PaymentFailed,
            s\<lparr>orders_id_seq := orders_id_seq s + 1,
              order_items_id_seq := order_items_id_seq s + int (length items)\<rparr>)"
proof -
  let ?s1 = "s\<lparr>products := take_stock items (products s)\<rparr>"
  let ?tot = "items_total (products s) items"
  let ?ds = "requested_data (products s) items"
  have l: "createOrder_items items [] 0 s = (Inr (?ds, ?tot), ?s1)"
    using createOrder_items_pass_eq [OF c, of "[]" 0] by simp
  have "list_all (\<lambda>r. o_id r < orders_id_seq ?s1) (orders ?s1)"
    and "list_all (\<lambda>r. oi_id r < order_items_id_seq ?s1) (order_items ?s1)"
    using q by (simp_all add: sequences_ahead_def)
  from order_create_ok [OF this] obtain ord s2 where
    oc: "order_create now userId ''processing'' ?tot ?ds ?s1 = (Inr ord, s2)" by blast
  note C = order_create_Inr [OF oc]
  have oid: "o_id ord = orders_id_seq s"
    using C(1) by simp
  have tx: "createOrder_tx pay now userId items s = (Inl PaymentFailed, s2)"
    using u l oc f oid by (auto simp: createOrder_tx_def)
  have "rollback s s2 = s\<lparr>orders_id_seq := orders_id_seq s + 1,
              order_items_id_seq := order_items_id_seq s + int (length items)\<rparr>"
    unfolding C(3) by (simp add: rollback_def requested_data_def)
  with tx show ?thesis
    by (simp add: createOrder_with_def transaction_def)
qed

lemma createOrder_with_returns:
  assumes u: "user_findUnique userId s \<noteq> None"
      and c: "checks_pass (products s) [] items"
      and q: "sequences_ahead s"
      and n: "find (\<lambda>r. pay_order_id r = orders_id_seq s) (payments s) = None"
      and f: "success (pay (items_total (products s) items) (orders_id_seq s))"
  shows "\<exists>r s'. createOrder_with pay now userId items s = (Inr r, s')"
proof -
  let ?s1 = "s\<lparr>products := take_stock items (products s)\<rparr>"
  let ?tot = "items_total (products s) items"
  let ?ds = "requested_data (products s) items"
  have l: "createOrder_items items [] 0 s = (Inr (?ds, ?tot), ?s1)"
    using createOrder_items_pass_eq [OF c, of "[]" 0] by simp
  have "list_all (\<lambda>r. o_id r < orders_id_seq ?s1) (orders ?s1)"
    and "list_all (\<lambda>r. oi_id r < order_items_id_seq ?s1) (order_items ?s1)"
    using q by (simp_all add: sequences_ahead_def)
  from order_create_ok [OF this] obtain ord s2 where
    oc: "order_create now userId ''processing'' ?tot ?ds ?s1 = (Inr ord, s2)" by blast
  note C = order_create_Inr [OF oc]
  have oid: "o_id ord = orders_id_seq s"
    using C(1) by simp
  have p2: "payments s2 = payments s" "payments_id_seq s2 = payments_id_seq s"
    unfolding C(3) by simp_all
  have "find (\<lambda>r. pay_id r = payments_id_seq s) (payments s) = None"
    using q by (auto simp: sequences_ahead_def intro: find_None_less)
  with n p2 oid obtain row s3 where
    pc: "payment_create now (o_id ord) ?tot ''succeeded'' s2 = (Inr row, s3)"
    by (simp add: payment_create_def Let_def)
  have "createOrder_tx pay now userId items s = (Inr ord, s3)"
    using u l oc f oid pc by (auto simp: createOrder_tx_def)
  then show ?thesis
    by (simp add: createOrder_with_Inr)
qed

lemma createOrder_with_passed_errors:
  assumes u: "user_findUnique userId s \<noteq> None"
      and c: "checks_pass (products s) [] items"
      and r: "createOrder_with pay now userId items s = (Inl e, s')"
  shows "e = PaymentFailed \<or> (\<exists>c. e = UniqueViolation c)"
proof -
  from r obtain s1 where tx: "createOrder_tx pay now userId items s = (Inl e, s1)"
    by (auto simp: createOrder_with_Inl)
  have l: "createOrder_items items [] 0 s =
      (Inr (requested_data (products s) items, items_total (products s) items),
       s\<lparr>products := take_stock items (products s)\<rparr>)"
    using createOrder_items_pass_eq [OF c, of "[]" 0] by simp
  from tx u l show ?thesis
    by (auto simp: createOrder_tx_def split: option.splits prod.splits sum.splits if_splits
          dest: order_create_Inl payment_create_Inl)
qed

lemma createOrder_with_UserNotFound_iff:
  "fst (createOrder_with pay now userId items s) = Inl UserNotFound \<longleftrightarrow> user_findUnique userId s = None"
proof
  assume a: "fst (createOrder_with pay now userId items s) = Inl UserNotFound"
  show "user_findUnique userId s = None"
  proof (rule ccontr)
    assume u: "user_findUnique userId s \<noteq> None"
    obtain s' where r: "createOrder_with pay now userId items s = (Inl UserNotFound, s')"
      using a by (cases "createOrder_with pay now userId items s") auto
    then obtain s1 where tx: "createOrder_tx pay now userId items s = (Inl UserNotFound, s1)"
      by (auto simp: createOrder_with_Inl)
    from tx u show False
      by (auto simp: createOrder_tx_def split: option.splits prod.splits sum.splits if_splits
            dest: createOrder_items_Inl order_create_Inl payment_create_Inl)
  qed
next
  assume "user_findUnique userId s = None"
  then show "fst (createOrder_with pay now userId items s) = Inl UserNotFound"
    by (simp add: createOrder_with_no_user)
qed

subsection \<open>The transaction of cancelOrder\<close>

lemma cancelOrder_items_frame:
  "cancelOrder_items rs s = (x, s') \<Longrightarrow> \<exists>ps. s' = s\<lparr>products := ps\<rparr>"
proof (induction rs arbitrary: s)
  case Nil
  then have "s' = s\<lparr>products := products s\<rparr>" by simp
  then show ?case by blast
next
  case (Cons r rs)
  show ?case
  proof (cases "product_update (oi_product_id r) (Increment (of_int (oi_quantity r))) s")
    case (Inl e)
    with Cons.prems have "s' = s\<lparr>products := products s\<rparr>" by simp
    then show ?thesis by blast
  next
    case (Inr s1)
    with Cons.prems have "cancelOrder_items rs s1 = (x, s')" by simp
    from Cons.IH [OF this] obtain ps where "s' = s1\<lparr>products := ps\<rparr>" by blast
    then have "s' = s\<lparr>products := ps\<rparr>"
      unfolding product_update_Inr [OF Inr] by simp
    then show ?thesis by blast
  qed
qed

lemma cancelOrder_items_Inl:
  "cancelOrder_items rs s = (Inl e, s') \<Longrightarrow> e = RecordNotFound"
proof (induction rs arbitrary: s)
  case Nil
  then show ?case by simp
next
  case (Cons r rs)
  then show ?case
    by (auto simp: product_update_def split: sum.splits option.splits)
qed

lemma cancelOrder_items_ok:
  "list_all (\<lambda>r. product_findUnique (oi_product_id r) s \<noteq> None) rs \<Longrightarrow>
     cancelOrder_items rs s = (Inr (), s\<lparr>products := restore_stock rs (products s)\<rparr>)"
proof (induction rs arbitrary: s)
  case Nil
  then show ?case by (simp add: restore_stock_def recorded_qty_def)
next
  case (Cons r rs)
  from Cons.prems obtain p where p: "product_findUnique (oi_product_id r) s = Some p"
    by auto
  then obtain s1 where s1: "product_update (oi_product_id r) (Increment (of_int (oi_quantity r))) s = Inr s1"
    using product_update_found by blast
  note e = product_update_Inr [OF s1]
  have "\<And>j. product_findUnique j s1 \<noteq> None \<longleftrightarrow> product_findUnique j s \<noteq> None"
    unfolding e product_findUnique_def by (simp add: find_map_id)
  with Cons.prems have "list_all (\<lambda>r. product_findUnique (oi_product_id r) s1 \<noteq> None) rs"
    by (simp add: list_all_iff)
  from Cons.IH [OF this] have "cancelOrder_items rs s1
      = (Inr (), s1\<lparr>products := restore_stock rs (products s1)\<rparr>)" .
  then show ?case
    using s1 unfolding e by (auto simp: restore_stock_def recorded_qty_Cons)
qed

lemma cancelOrder_not_found:
  "order_findUnique orderId s = None \<Longrightarrow> cancelOrder orderId s = (Inl OrderNotFound, s)"
  by (simp add: cancelOrder_def transaction_def cancelOrder_tx_def rollback_self)

lemma cancelOrder_cancelled:
  "order_findUnique orderId s = Some ord \<Longrightarrow> o_status ord = ''cancelled'' \<Longrightarrow>
     cancelOrder orderId s = (Inr \<lparr>c_orderId = orderId, c_status = ''cancelled''\<rparr>, s)"
  by (auto simp: cancelOrder_def transaction_def cancelOrder_tx_def order_findUnique_def
        dest: find_oid)

lemma cancelOrder_not_cancelable:
  "order_findUnique orderId s = Some ord \<Longrightarrow>
   o_status ord = ''shipped'' \<or> o_status ord = ''delivered'' \<Longrightarrow>
     cancelOrder orderId s = (Inl (NotCancelable (o_status ord)), s)"
  by (auto simp: cancelOrder_def transaction_def cancelOrder_tx_def rollback_self)

lemma cancelOrder_proceeds:
  assumes f: "order_findUnique orderId s = Some ord"
      and st: "o_status ord \<noteq> ''cancelled''" "o_status ord \<noteq> ''shipped''"
              "o_status ord \<noteq> ''delivered''"
      and fk: "list_all (\<lambda>r. product_findUnique (oi_product_id r) s \<noteq> None)
                 (order_orderItems orderId s)"
  shows "cancelOrder orderId s =
           (Inr \<lparr>c_orderId = orderId, c_status = ''cancelled''\<rparr>,
            s\<lparr>products := restore_stock (order_orderItems orderId s) (products s),
              orders := map (\<lambda>r. if o_id r = orderId then r\<lparr>o_status := ''cancelled''\<rparr> else r)
                          (orders s)\<rparr>)"
proof -
  let ?s1 = "s\<lparr>products := restore_stock (order_orderItems orderId s) (products s)\<rparr>"
  have l: "cancelOrder_items (order_orderItems orderId s) s = (Inr (), ?s1)"
    using cancelOrder_items_ok [OF fk] .
  have f1: "order_findUnique orderId ?s1 = Some ord"
    using f by (simp add: order_findUnique_def)
  have oid: "o_id ord = orderId"
    using f by (auto simp: order_findUnique_def dest: find_oid)
  have "cancelOrder_tx orderId s =
      (Inr (ord\<lparr>o_status := ''cancelled''\<rparr>),
       ?s1\<lparr>orders := map (\<lambda>r. if o_id r = orderId then r\<lparr>o_status := ''cancelled''\<rparr> else r)
                          (orders ?s1)\<rparr>)"
    using f st l f1 by (simp add: cancelOrder_tx_def order_update_status_def)
  then show ?thesis
    using oid by (simp add: cancelOrder_def transaction_def)
qed

lemma cancelOrder_tx_seqs:
  "cancelOrder_tx orderId s = (x, s') \<Longrightarrow>
     \<exists>ps os. s' = s\<lparr>products := ps, orders := os\<rparr>"
proof (cases "order_findUnique orderId s")
  case None
  assume "cancelOrder_tx orderId s = (x, s')"
  with None have "s' = s\<lparr>products := products s, orders := orders s\<rparr>"
    by (simp add: cancelOrder_tx_def)
  then show ?thesis by blast
next
  case (Some ord)
  assume a: "cancelOrder_tx orderId s = (x, s')"
  obtain y s1 where l: "cancelOrder_items (order_orderItems orderId s) s = (y, s1)"
    by (cases "cancelOrder_items (order_orderItems orderId s) s")
  from cancelOrder_items_frame [OF l] obtain ps where s1: "s1 = s\<lparr>products := ps\<rparr>" by blast
  from a Some l have "s' = s\<lparr>products := products s, orders := orders s\<rparr>
      \<or> s' = s1 \<or> s' = snd (order_update_status orderId ''cancelled'' s1)"
    by (auto simp: cancelOrder_tx_def split: if_splits sum.splits)
  then consider "s' = s\<lparr>products := products s, orders := orders s\<rparr>" | "s' = s1"
    | "s' = snd (order_update_status orderId ''cancelled'' s1)" by blast
  then show ?thesis
  proof cases
    case 1
    then show ?thesis by blast
  next
    case 2
    then have "s' = s\<lparr>products := ps, orders := orders s\<rparr>" using s1 by simp
    then show ?thesis by blast
  next
    case 3
    then have "s' = s\<lparr>products := ps, orders := orders s'\<rparr>"
      using s1 by (auto simp: order_update_status_def split: option.splits)
    then show ?thesis by blast
  qed
qed

lemma cancelOrder_Inl:
  assumes "cancelOrder orderId s = (Inl e, s')"
  shows "s' = s"
proof -
  from assms obtain s1 where tx: "cancelOrder_tx orderId s = (Inl e, s1)" and s': "s' = rollback s s1"
    by (auto simp: cancelOrder_def transaction_def split: prod.splits sum.splits)
  from cancelOrder_tx_seqs [OF tx] obtain ps os where "s1 = s\<lparr>products := ps, orders := os\<rparr>"
    by blast
  with s' show ?thesis by (simp add: rollback_def)
qed

lemma cancelOrder_tx_Inl:
  assumes "cancelOrder_tx orderId s = (Inl e, s')"
  shows "e = OrderNotFound \<and> order_findUnique orderId s = None
       \<or> (\<exists>ord. order_findUnique orderId s = Some ord \<and> e = NotCancelable (o_status ord)
             \<and> (o_status ord = ''shipped'' \<or> o_status ord = ''delivered''))
       \<or> e = RecordNotFound"
proof (cases "order_findUnique orderId s")
  case None
  with assms show ?thesis by (simp add: cancelOrder_tx_def)
next
  case (Some ord)
  obtain y s1 where l: "cancelOrder_items (order_orderItems orderId s) s = (y, s1)"
    by (cases "cancelOrder_items (order_orderItems orderId s) s")
  show ?thesis
  proof (cases "o_status ord = ''cancelled''")
    case True
    with assms Some show ?thesis by (simp add: cancelOrder_tx_def)
  next
    case nc: False
    show ?thesis
    proof (cases "o_status ord = ''shipped'' \<or> o_status ord = ''delivered''")
      case True
      with assms Some nc show ?thesis by (auto simp: cancelOrder_tx_def)
    next
      case False
      with assms Some nc l have "e = RecordNotFound"
        by (auto simp: cancelOrder_tx_def order_update_status_def
              split: sum.splits option.splits dest: cancelOrder_items_Inl)
      then show ?thesis by simp
    qed
  qed
qed

lemma cancelOrder_Inl_tx:
  "cancelOrder orderId s = (Inl e, s') \<Longrightarrow> \<exists>s1. cancelOrder_tx orderId s = (Inl e, s1)"
  by (auto simp: cancelOrder_def transaction_def split: prod.splits sum.splits)

lemma cancelOrder_Inr:
  assumes "cancelOrder orderId s = (Inr r, s')"
  shows "r = \<lparr>c_orderId = orderId, c_status = ''cancelled''\<rparr>
       \<and> (\<exists>ord. order_findUnique orderId s' = Some ord \<and> o_status ord = ''cancelled'')"
proof -
  from assms obtain res where tx: "cancelOrder_tx orderId s = (Inr res, s')"
    and r: "r = \<lparr>c_orderId = o_id res, c_status = o_status res\<rparr>"
    by (auto simp: cancelOrder_def transaction_def split: prod.splits sum.splits)
  from tx obtain ord where f: "order_findUnique orderId s = Some ord"
    by (auto simp: cancelOrder_tx_def split: option.splits)
  have oid: "o_id ord = orderId"
    using f by (auto simp: order_findUnique_def dest: find_oid)
  show ?thesis
  proof (cases "o_status ord = ''cancelled''")
    case True
    with tx f have "res = ord" "s' = s" by (simp_all add: cancelOrder_tx_def)
    with r f True oid show ?thesis by simp
  next
    case False
    obtain y s1 where l: "cancelOrder_items (order_orderItems orderId s) s = (y, s1)"
      by (cases "cancelOrder_items (order_orderItems orderId s) s")
    from cancelOrder_items_frame [OF l] obtain ps where s1: "s1 = s\<lparr>products := ps\<rparr>" by blast
    have f1: "order_findUnique orderId s1 = Some ord"
      using f s1 by (simp add: order_findUnique_def)
    from tx f False l have u: "order_update_status orderId ''cancelled'' s1 = (Inr res, s')"
      by (auto simp: cancelOrder_tx_def split: if_splits sum.splits)
    with f1 have res: "res = ord\<lparr>o_status := ''cancelled''\<rparr>"
      and s': "s' = s1\<lparr>orders := map (\<lambda>r. if o_id r = orderId then r\<lparr>o_status := ''cancelled''\<rparr> else r)
                          (orders s1)\<rparr>"
      by (auto simp: order_update_status_def)
    have "order_findUnique orderId s' = Some (ord\<lparr>o_status := ''cancelled''\<rparr>)"
      using f1 oid unfolding s' order_findUnique_def
      by (simp add: find_map_oid)
    with r res oid show ?thesis by simp
  qed
qed

lemma cancelOrder_NotCancelable_iff:
  "fst (cancelOrder orderId s) = Inl (NotCancelable st) \<longleftrightarrow>
     (\<exists>ord. order_findUnique orderId s = Some ord \<and> o_status ord = st
        \<and> (st = ''shipped'' \<or> st = ''delivered''))"
proof
  assume a: "fst (cancelOrder orderId s) = Inl (NotCancelable st)"
  then obtain s' where "cancelOrder orderId s = (Inl (NotCancelable st), s')"
    by (cases "cancelOrder orderId s") auto
  then obtain s1 where "cancelOrder_tx orderId s = (Inl (NotCancelable st), s1)"
    using cancelOrder_Inl_tx by blast
  from cancelOrder_tx_Inl [OF this]
  show "\<exists>ord. order_findUnique orderId s = Some ord \<and> o_status ord = st
        \<and> (st = ''shipped'' \<or> st = ''delivered'')"
    by auto
next
  assume "\<exists>ord. order_findUnique orderId s = Some ord \<and> o_status ord = st
        \<and> (st = ''shipped'' \<or> st = ''delivered'')"
  then obtain ord where "order_findUnique orderId s = Some ord"
    "o_status ord = ''shipped'' \<or> o_status ord = ''delivered''" "o_status ord = st"
    by blast
  from cancelOrder_not_cancelable [OF this(1,2)] this(3)
  show "fst (cancelOrder orderId s) = Inl (NotCancelable st)" by simp
qed

lemma cancelOrder_changes_only_if:
  assumes f: "order_findUnique orderId s = Some ord"
      and c: "snd (cancelOrder orderId s) \<noteq> s"
  shows "o_status ord \<noteq> ''cancelled'' \<and> o_status ord \<noteq> ''shipped''
       \<and> o_status ord \<noteq> ''delivered''"
proof (intro conjI notI)
  assume "o_status ord = ''cancelled''"
  from cancelOrder_cancelled [OF f this] c show False by simp
next
  assume "o_status ord = ''shipped''"
  then have "o_status ord = ''shipped'' \<or> o_status ord = ''delivered''" by simp
  from cancelOrder_not_cancelable [OF f this] c show False by simp
next
  assume "o_status ord = ''delivered''"
  then have "o_status ord = ''shipped'' \<or> o_status ord = ''delivered''" by simp
  from cancelOrder_not_cancelable [OF f this] c show False by simp
qed

subsection \<open>The query of getOrderDetails\<close>

lemma getOrderDetails_items_ok:
  "list_all (\<lambda>r. product_findUnique (oi_product_id r) s \<noteq> None) rs \<Longrightarrow>
     getOrderDetails_items rs s =
       Inr (map (\<lambda>r. \<lparr>iv_productId = oi_product_id r,
                       iv_productName = name_at (products s) (oi_product_id r),
                       iv_quantity = oi_quantity r, iv_price = oi_price r\<rparr>) rs)"
proof (induction rs)
  case Nil
  then show ?case by simp
next
  case (Cons r rs)
  from Cons.prems obtain p where p: "product_findUnique (oi_product_id r) s = Some p"
    by auto
  then have "p_id p = oi_product_id r" "name_at (products s) (oi_product_id r) = p_name p"
    by (auto simp: product_findUnique_def name_at_def dest: find_id)
  with Cons p show ?case by simp
qed

lemma getOrderDetails_items_reprice:
  "getOrderDetails_items rs (s\<lparr>products := map (\<lambda>p. p\<lparr>p_price := f p\<rparr>) (products s)\<rparr>)
     = getOrderDetails_items rs s"
proof (induction rs)
  case Nil
  then show ?case by simp
next
  case (Cons r rs)
  have "product_findUnique (oi_product_id r)
          (s\<lparr>products := map (\<lambda>p. p\<lparr>p_price := f p\<rparr>) (products s)\<rparr>)
        = map_option (\<lambda>p. p\<lparr>p_price := f p\<rparr>) (product_findUnique (oi_product_id r) s)"
    by (simp add: product_findUnique_def find_map_id)
  with Cons show ?case
    by (cases "product_findUnique (oi_product_id r) s") (simp_all split: sum.splits)
qed

lemma getOrderDetails_reprice:
  "fst (getOrderDetails orderId (s\<lparr>products := map (\<lambda>p. p\<lparr>p_price := f p\<rparr>) (products s)\<rparr>))
     = fst (getOrderDetails orderId s)"
  by (simp add: getOrderDetails_def order_findUnique_def user_findUnique_def
        order_orderItems_def getOrderDetails_items_reprice
        split: option.splits sum.splits)

lemma getOrderDetails_readonly: "snd (getOrderDetails orderId s) = s"
  by (simp add: getOrderDetails_def split: option.splits sum.splits)

subsection \<open>The validation loop of the handler\<close>

lemma get_prop_not_null:
  "x \<noteq> JNull \<Longrightarrow> x \<noteq> JUndefined \<Longrightarrow> get_prop x k = Inr (own_prop x k)"
  by (cases x) simp_all

lemma zero_or_negative_refused:
  "zero_or_negative q \<Longrightarrow> \<not> truthy q \<or> le_zero conv q"
  by (induction q rule: zero_or_negative.induct) (simp_all add: le_zero_def)

lemma item_invalid_refused:
  "item_invalid x \<Longrightarrow>
     \<not> truthy (own_prop x ''productId'') \<or> \<not> truthy (own_prop x ''quantity'')
       \<or> le_zero conv (own_prop x ''quantity'')"
  unfolding item_invalid_def using zero_or_negative_refused [of "own_prop x ''quantity''" conv]
  by auto

lemma validate_items_never_passes:
  "list_ex item_invalid xs \<Longrightarrow> validate_items conv xs \<noteq> Inr True"
proof (induction xs)
  case Nil
  then show ?case by simp
next
  case (Cons x xs)
  show ?case
  proof (cases "x = JNull \<or> x = JUndefined")
    case True
    then show ?thesis by auto
  next
    case False
    then have g: "\<And>k. get_prop x k = Inr (own_prop x k)"
      by (simp add: get_prop_not_null)
    show ?thesis
    proof (cases "item_invalid x")
      case True
      from item_invalid_refused [OF this, of conv] show ?thesis
        by (auto simp: g)
    next
      case False
      with Cons.prems have "list_ex item_invalid xs" by simp
      from Cons.IH [OF this] show ?thesis
        by (simp add: g)
    qed
  qed
qed

lemma validate_items_no_null:
  "list_all (\<lambda>x. x \<noteq> JNull \<and> x \<noteq> JUndefined) xs \<Longrightarrow> \<exists>b. validate_items conv xs = Inr b"
  by (induction xs) (auto simp: get_prop_not_null)

lemma destructure_body_object:
  "destructure_body (JObj fs) = Inr (own_prop (JObj fs) ''userId'', own_prop (JObj fs) ''items'')"
  by simp

lemma createOrder_catch_status:
  "res_status (createOrder_catch m) = 400 \<or> res_status (createOrder_catch m) = 500"
  by (simp add: createOrder_catch_def)

lemma orderController_createOrder_invalid:
  assumes "request_invalid (JObj fs)"
  shows "snd (orderController_createOrder conv service (JObj fs) s) = s
       \<and> (res_status (fst (orderController_createOrder conv service (JObj fs) s)) = 400
          \<or> res_status (fst (orderController_createOrder conv service (JObj fs) s)) = 500)
       \<and> fst (orderController_createOrder conv service (JObj fs) s)
           = fst (orderController_createOrder conv service' (JObj fs) s)"
proof -
  let ?u = "own_prop (JObj fs) ''userId''" and ?i = "own_prop (JObj fs) ''items''"
  show ?thesis
  proof (cases "\<not> truthy ?u \<or> \<not> truthy ?i \<or> \<not> isArray ?i \<or> length (elements ?i) = 0")
    case True
    then show ?thesis
      unfolding orderController_createOrder_def destructure_body_object by simp
  next
    case False
    with assms have "list_ex item_invalid (elements ?i)"
      by (auto simp: request_invalid_def)
    then have n: "validate_items conv (elements ?i) \<noteq> Inr True"
      by (rule validate_items_never_passes)
    show ?thesis
    proof (cases "validate_items conv (elements ?i)")
      case (Inl m)
      with False createOrder_catch_status [of m] show ?thesis
        unfolding orderController_createOrder_def destructure_body_object by simp
    next
      case (Inr b)
      with n have "b = False" by simp
      with Inr False show ?thesis
        unfolding orderController_createOrder_def destructure_body_object by simp
    qed
  qed
qed

lemma orderController_createOrder_invalid_400:
  assumes "request_invalid (JObj fs)"
      and "list_all (\<lambda>x. x \<noteq> JNull \<and> x \<noteq> JUndefined) (elements (own_prop (JObj fs) ''items''))"
  shows "res_status (fst (orderController_createOrder conv service (JObj fs) s)) = 400
       \<and> snd (orderController_createOrder conv service (JObj fs) s) = s"
proof -
  let ?u = "own_prop (JObj fs) ''userId''" and ?i = "own_prop (JObj fs) ''items''"
  show ?thesis
  proof (cases "\<not> truthy ?u \<or> \<not> truthy ?i \<or> \<not> isArray ?i \<or> length (elements ?i) = 0")
    case True
    then show ?thesis
      unfolding orderController_createOrder_def destructure_body_object by simp
  next
    case False
    with assms have "list_ex item_invalid (elements ?i)"
      by (auto simp: request_invalid_def)
    then have n: "validate_items conv (elements ?i) \<noteq> Inr True"
      by (rule validate_items_never_passes)
    from validate_items_no_null [OF assms(2), of conv] obtain b
      where b: "validate_items conv (elements ?i) = Inr b" by blast
    with n have "b = False" by simp
    with b False show ?thesis
      unfolding orderController_createOrder_def destructure_body_object by simp
  qed
qed

lemma orderController_createOrder_only_null:
  "orderController_createOrder conv service
     (JObj [(''userId'', JNum (Finite 1)), (''items'', JArr [JNull])]) s
     = (\<lparr>res_status = 500, res_json = ErrorJson ''Internal server error''\<rparr>, s)"
  by (simp add: orderController_createOrder_def createOrder_catch_def quoted_def)

subsection \<open>Runs on the seeded store\<close>


lemma seed_cancel_tx:
  "cancelOrder_tx 1 seed_db_ordered
     = (Inr \<lparr>o_id = 1, o_user_id = 1, o_status = ''cancelled'',
             o_total_amount = 11120198, o_created_at = 5\<rparr>, seed_db_cancelled)"
  by (simp add: cancelOrder_tx_def seed_db_def
        seed_db_ordered_def seed_db_cancelled_def order_findUnique_def order_orderItems_def
        product_findUnique_def product_update_def order_update_status_def)

lemma seed_cancel_run:
  "cancelOrder 1 seed_db_ordered
     = (Inr \<lparr>c_orderId = 1, c_status = ''cancelled''\<rparr>, seed_db_cancelled)"
  by (simp add: cancelOrder_def transaction_def seed_cancel_tx)

section \<open>Order creation\<close>




text \<open>
  Claim C2. Whatever error \<open>createOrder\<close> fails with -- an unknown user, an unknown
  product, insufficient stock, a refused payment, a failure of the store -- the five
  relations are afterwards what they were before the call: no stock decrement, no
  order, no order item and no payment of the failed attempt is left. In particular,
  when the user exists, the items before \<open>it\<close> pass their checks and \<open>it\<close> asks of its
  product more than the stock those items have left, the call fails with
  \<open>InsufficientStock\<close> naming the product, what is left and what was asked, and the
  store is the one before the call.
\<close>

theorem createOrder_failure_discards_writes:
  "(createOrder_with pay now userId items s = (Inl e, s') \<longrightarrow>
      users s' = users s \<and> products s' = products s \<and> orders s' = orders s
      \<and> order_items s' = order_items s \<and> payments s' = payments s)
   \<and> (user_findUnique userId s \<noteq> None \<and> checks_pass (products s) [] pre
        \<and> product_findUnique (productId it) s = Some p
        \<and> of_int (stock_left (products s) pre (productId it)) < quantity it \<longrightarrow>
      createOrder_with pay now userId (pre @ it # post) s =
        (Inl (InsufficientStock (p_name p) (stock_left (products s) pre (productId it))
               (quantity it)), s))"
proof -
  have a: "users s' = users s \<and> products s' = products s \<and> orders s' = orders s
      \<and> order_items s' = order_items s \<and> payments s' = payments s"
    if "createOrder_with pay now userId items s = (Inl e, s')"
  proof -
    from that obtain s1 where "s' = rollback s s1"
      by (auto simp: createOrder_with_Inl)
    then show ?thesis by (simp add: rollback_def)
  qed
  have b: "createOrder_with pay now userId (pre @ it # post) s =
        (Inl (InsufficientStock (p_name p) (stock_left (products s) pre (productId it))
               (quantity it)), s)"
    if "user_findUnique userId s \<noteq> None \<and> checks_pass (products s) [] pre
        \<and> product_findUnique (productId it) s = Some p
        \<and> of_int (stock_left (products s) pre (productId it)) < quantity it"
    using that by (simp add: createOrder_with_insufficient)
  from a b show ?thesis by blast
qed

theorem createOrder_failure_discards_writes_witness:
  "createOrder 5 1
      ([\<lparr>productId = 1, quantity = 2\<rparr>] @ \<lparr>productId = 5, quantity = 1\<rparr> # []) (seed_db 0)
     = (Inl (InsufficientStock ''iPhone'' 0 1), seed_db 0)
   \<and> products (snd (createOrder_tx (processPayment 5) 5 1
        [\<lparr>productId = 1, quantity = 2\<rparr>, \<lparr>productId = 5, quantity = 1\<rparr>] (seed_db 0)))
       \<noteq> products (seed_db 0)
   \<and> orders (seed_db 0) = [] \<and> payments (seed_db 0) = []"
proof -
  have h: "user_findUnique 1 (seed_db 0) \<noteq> None
      \<and> checks_pass (products (seed_db 0)) [] [\<lparr>productId = 1, quantity = 2\<rparr>]
      \<and> product_findUnique (productId \<lparr>productId = 5, quantity = 1\<rparr>) (seed_db 0)
          = Some \<lparr>p_id = 5, p_name = ''iPhone'', p_price = 10000000, p_stock = 0\<rparr>
      \<and> of_int (stock_left (products (seed_db 0)) [\<lparr>productId = 1, quantity = 2\<rparr>]
            (productId \<lparr>productId = 5, quantity = 1\<rparr>)) < quantity \<lparr>productId = 5, quantity = 1\<rparr>"
    by (simp add: user_findUnique_def product_findUnique_def seed_db_def stock_left_def
          taken_qty_def)
  have r: "createOrder 5 1
      ([\<lparr>productId = 1, quantity = 2\<rparr>] @ \<lparr>productId = 5, quantity = 1\<rparr> # []) (seed_db 0)
     = (Inl (InsufficientStock ''iPhone'' 0 1), seed_db 0)"
    using createOrder_failure_discards_writes [of "processPayment 5" 5 1 "[]" "seed_db 0"
        UserNotFound "seed_db 0" "[\<lparr>productId = 1, quantity = 2\<rparr>]"
        "\<lparr>productId = 5, quantity = 1\<rparr>"
        "\<lparr>p_id = 5, p_name = ''iPhone'', p_price = 10000000, p_stock = 0\<rparr>" "[]"] h
    by (simp add: createOrder_def stock_left_def seed_db_def taken_qty_def)
  have t: "products (snd (createOrder_tx (processPayment 5) 5 1
        [\<lparr>productId = 1, quantity = 2\<rparr>, \<lparr>productId = 5, quantity = 1\<rparr>] (seed_db 0)))
       \<noteq> products (seed_db 0)"
    by (simp add: createOrder_tx_def seed_db_def user_findUnique_def product_findUnique_def
          product_update_def)
  from createOrder_failure_discards_writes [of "processPayment 5" 5 1
      "[\<lparr>productId = 1, quantity = 2\<rparr>] @ \<lparr>productId = 5, quantity = 1\<rparr> # []" "seed_db 0"
      "InsufficientStock ''iPhone'' 0 1" "seed_db 0"] r t
  show ?thesis by (simp add: createOrder_def seed_db_def)
qed

text \<open>
  Claim C5. The authorizer is called with the computed total and the identifier of the
  order just created. When the user exists, every item passes its check, the
  sequences are ahead of the keys in use and the authorizer refuses that call, the
  body of the transaction stops with \<open>PaymentFailed\<close> after it has lowered the stock
  and stored the order and its line items; \<open>createOrder\<close> fails with \<open>PaymentFailed\<close>
  and the store it leaves differs from the one before the call only in the two
  sequences: no new order, no new payment, every product at its stock of before.
\<close>

theorem createOrder_payment_failure:
  assumes "user_findUnique userId s \<noteq> None"
      and "checks_pass (products s) [] items"
      and "sequences_ahead s"
      and "\<not> success (pay (items_total (products s) items) (orders_id_seq s))"
  shows "createOrder_tx pay now userId items s =
           (Inl PaymentFailed,
            s\<lparr>products := take_stock items (products s),
              orders := orders s @
                [\<lparr>o_id = orders_id_seq s, o_user_id = userId, o_status = ''processing'',
                  o_total_amount = decimal_column (items_total (products s) items), o_created_at = now\<rparr>],
              order_items := order_items s @
                line_items (orders_id_seq s) (order_items_id_seq s)
                  (requested_data (products s) items),
              orders_id_seq := orders_id_seq s + 1,
              order_items_id_seq := order_items_id_seq s + int (length items)\<rparr>)
       \<and> createOrder_with pay now userId items s =
           (Inl PaymentFailed,
            s\<lparr>orders_id_seq := orders_id_seq s + 1,
              order_items_id_seq := order_items_id_seq s + int (length items)\<rparr>)
       \<and> rows (snd (createOrder_with pay now userId items s)) = rows s"
proof -
  note tx = createOrder_tx_payment_failed [where pay = pay and now = now, OF assms]
  note w = createOrder_with_payment_failed [where pay = pay and now = now, OF assms]
  have "rows (snd (createOrder_with pay now userId items s)) = rows s"
    unfolding w by (simp add: rows_def)
  with tx w show ?thesis by blast
qed

theorem createOrder_payment_failure_witness:
  "user_findUnique 1 (seed_db 0) \<noteq> None
   \<and> checks_pass (products (seed_db 0)) [] seed_order
   \<and> sequences_ahead (seed_db 0)
   \<and> \<not> success ((\<lambda>amount orderId. \<lparr>success = False, transactionId = None\<rparr>)
         (items_total (products (seed_db 0)) seed_order) (orders_id_seq (seed_db 0)))
   \<and> createOrder_with (\<lambda>amount orderId. \<lparr>success = False, transactionId = None\<rparr>) 5 1
        seed_order (seed_db 0)
       = (Inl PaymentFailed, (seed_db 0)\<lparr>orders_id_seq := 2, order_items_id_seq := 3\<rparr>)
   \<and> orders (snd (createOrder_tx (\<lambda>amount orderId. \<lparr>success = False, transactionId = None\<rparr>)
        5 1 seed_order (seed_db 0)))
       = [\<lparr>o_id = 1, o_user_id = 1, o_status = ''processing'',
           o_total_amount = 11120198, o_created_at = 5\<rparr>]"
proof -
  have h1: "user_findUnique 1 (seed_db 0) \<noteq> None"
    by (simp add: user_findUnique_def seed_db_def)
  have h2: "checks_pass (products (seed_db 0)) [] seed_order"
    by (simp add: seed_db_def seed_order_def stock_left_def taken_qty_def)
  have h3: "sequences_ahead (seed_db 0)"
    by (simp add: sequences_ahead_def seed_db_def)
  have h4: "\<not> success ((\<lambda>amount orderId. \<lparr>success = False, transactionId = None\<rparr>)
         (items_total (products (seed_db 0)) seed_order) (orders_id_seq (seed_db 0)))"
    by simp
  have t: "items_total (products (seed_db 0)) seed_order = 11120198"
    by (simp add: items_total_def price_at_def seed_db_def seed_order_def)
  have n: "orders_id_seq (seed_db 0) = 1" "order_items_id_seq (seed_db 0) = 1"
    "orders (seed_db 0) = []" "length seed_order = 2"
    by (simp_all add: seed_db_def seed_order_def)
  from createOrder_payment_failure
      [where pay = "\<lambda>amount orderId. \<lparr>success = False, transactionId = None\<rparr>" and now = 5,
       OF h1 h2 h3 h4] h1 h2 h3 h4
  show ?thesis by (simp add: t n)
qed

text \<open>
  Claim C6 as stated fails. On the seeded store, user 1 asks for one iPhone (product 5,
  out of stock) and then for one unit of product 7, which does not exist. A requested
  product identifier does not resolve, yet the call fails with \<open>InsufficientStock\<close>
  for the iPhone and not with \<open>ProductNotFound\<close>: the two checks are made item by item.
\<close>

theorem createOrder_rejection_order_counterexample:
  "user_findUnique 1 (seed_db 0) \<noteq> None
   \<and> product_findUnique 7 (seed_db 0) = None
   \<and> createOrder 5 1 [\<lparr>productId = 5, quantity = 1\<rparr>, \<lparr>productId = 7, quantity = 1\<rparr>] (seed_db 0)
       = (Inl (InsufficientStock ''iPhone'' 0 1), seed_db 0)
   \<and> fst (createOrder 5 1 [\<lparr>productId = 5, quantity = 1\<rparr>, \<lparr>productId = 7, quantity = 1\<rparr>]
         (seed_db 0)) \<noteq> Inl (ProductNotFound 7)"
  by (simp add: createOrder_def createOrder_with_def transaction_def createOrder_tx_def
        rollback_def user_findUnique_def product_findUnique_def seed_db_def)

text \<open>
  Claim C6, amended. \<open>createOrder\<close> fails with \<open>UserNotFound\<close> exactly when no user has
  the identifier. Otherwise the items are checked one by one in the order of the
  request, each against the stock that the items before it have left, and the first
  item that fails decides: \<open>ProductNotFound\<close> naming its product identifier when that
  does not resolve, \<open>InsufficientStock\<close> naming the product, the stock left and the
  quantity asked when it asks for more than is left. In both cases the store is left
  as it was. An item that asks for exactly what is left passes, and when every item
  passes the call fails with none of these three errors. Every request is in one of
  these cases.
\<close>

theorem createOrder_rejections:
  "(fst (createOrder_with pay now userId items s) = Inl UserNotFound
      \<longleftrightarrow> user_findUnique userId s = None)
   \<and> (user_findUnique userId s \<noteq> None \<and> checks_pass (products s) [] pre
        \<and> product_findUnique (productId it) s = None \<longrightarrow>
      createOrder_with pay now userId (pre @ it # post) s
        = (Inl (ProductNotFound (productId it)), s))
   \<and> (user_findUnique userId s \<noteq> None \<and> checks_pass (products s) [] pre
        \<and> product_findUnique (productId it) s = Some p
        \<and> of_int (stock_left (products s) pre (productId it)) < quantity it \<longrightarrow>
      createOrder_with pay now userId (pre @ it # post) s
        = (Inl (InsufficientStock (p_name p) (stock_left (products s) pre (productId it))
                 (quantity it)), s))
   \<and> (user_findUnique userId s \<noteq> None \<and> checks_pass (products s) [] items \<longrightarrow>
        (\<forall>e. fst (createOrder_with pay now userId items s) = Inl e \<longrightarrow>
           e = PaymentFailed \<or> (\<exists>c. e = UniqueViolation c)))
   \<and> (checks_pass (products s) [] items
        \<or> (\<exists>a x b. items = a @ x # b \<and> checks_pass (products s) [] a
              \<and> (product_findUnique (productId x) s = None
                  \<or> of_int (stock_left (products s) a (productId x)) < quantity x)))"
proof -
  have 1: "fst (createOrder_with pay now userId items s) = Inl UserNotFound
      \<longleftrightarrow> user_findUnique userId s = None"
    by (rule createOrder_with_UserNotFound_iff)
  have 2: "createOrder_with pay now userId (pre @ it # post) s
        = (Inl (ProductNotFound (productId it)), s)"
    if "user_findUnique userId s \<noteq> None \<and> checks_pass (products s) [] pre
        \<and> product_findUnique (productId it) s = None"
    using that by (simp add: createOrder_with_not_found)
  have 3: "createOrder_with pay now userId (pre @ it # post) s
        = (Inl (InsufficientStock (p_name p) (stock_left (products s) pre (productId it))
                 (quantity it)), s)"
    if "user_findUnique userId s \<noteq> None \<and> checks_pass (products s) [] pre
        \<and> product_findUnique (productId it) s = Some p
        \<and> of_int (stock_left (products s) pre (productId it)) < quantity it"
    using that by (simp add: createOrder_with_insufficient)
  have 4: "\<forall>e. fst (createOrder_with pay now userId items s) = Inl e \<longrightarrow>
           e = PaymentFailed \<or> (\<exists>c. e = UniqueViolation c)"
    if h: "user_findUnique userId s \<noteq> None \<and> checks_pass (products s) [] items"
  proof (intro allI impI)
    fix e
    assume "fst (createOrder_with pay now userId items s) = Inl e"
    then obtain s' where "createOrder_with pay now userId items s = (Inl e, s')"
      by (cases "createOrder_with pay now userId items s") auto
    with h show "e = PaymentFailed \<or> (\<exists>c. e = UniqueViolation c)"
      using createOrder_with_passed_errors by blast
  qed
  have 5: "checks_pass (products s) [] items
        \<or> (\<exists>a x b. items = a @ x # b \<and> checks_pass (products s) [] a
              \<and> (product_findUnique (productId x) s = None
                  \<or> of_int (stock_left (products s) a (productId x)) < quantity x))"
    using checks_pass_split [of "products s" "[]" items]
    by (simp add: product_findUnique_def)
  from 1 2 3 4 5 show ?thesis by blast
qed

theorem createOrder_rejections_witness:
  "user_findUnique 9 (seed_db 0) = None
   \<and> fst (createOrder 5 9 [\<lparr>productId = 1, quantity = 10\<rparr>] (seed_db 0))
       = Inl UserNotFound
   \<and> createOrder 5 1
        ([\<lparr>productId = 1, quantity = 2\<rparr>] @ \<lparr>productId = 7, quantity = 1\<rparr> # []) (seed_db 0)
       = (Inl (ProductNotFound 7), seed_db 0)
   \<and> createOrder 5 1
        ([\<lparr>productId = 1, quantity = 6\<rparr>] @ \<lparr>productId = 1, quantity = 5\<rparr> # []) (seed_db 0)
       = (Inl (InsufficientStock ''Laptop'' 4 5), seed_db 0)
   \<and> checks_pass (products (seed_db 0)) [] [\<lparr>productId = 1, quantity = 10\<rparr>]
   \<and> fst (createOrder 5 1 [\<lparr>productId = 1, quantity = 10\<rparr>] (seed_db 0))
       = Inr \<lparr>r_orderId = 1, r_status = ''processing'', r_totalAmount = 55000990\<rparr>"
proof -
  have u9: "user_findUnique 9 (seed_db 0) = None"
    and u1: "user_findUnique 1 (seed_db 0) \<noteq> None"
    and p7: "product_findUnique (productId \<lparr>productId = 7, quantity = 1\<rparr>) (seed_db 0) = None"
    and p1: "product_findUnique (productId \<lparr>productId = 1, quantity = 5\<rparr>) (seed_db 0)
              = Some \<lparr>p_id = 1, p_name = ''Laptop'', p_price = 5500099, p_stock = 10\<rparr>"
    by (simp_all add: user_findUnique_def product_findUnique_def seed_db_def)
  have c2: "checks_pass (products (seed_db 0)) [] [\<lparr>productId = 1, quantity = 2\<rparr>]"
    and c6: "checks_pass (products (seed_db 0)) [] [\<lparr>productId = 1, quantity = 6\<rparr>]"
    and c10: "checks_pass (products (seed_db 0)) [] [\<lparr>productId = 1, quantity = 10\<rparr>]"
    and sl: "stock_left (products (seed_db 0)) [\<lparr>productId = 1, quantity = 6\<rparr>]
               (productId \<lparr>productId = 1, quantity = 5\<rparr>) = 4"
    by (simp_all add: seed_db_def stock_left_def taken_qty_def)
  have a: "fst (createOrder 5 9 [\<lparr>productId = 1, quantity = 10\<rparr>] (seed_db 0))
       = Inl UserNotFound"
    using createOrder_rejections [of "processPayment 5" 5 9
        "[\<lparr>productId = 1, quantity = 10\<rparr>]" "seed_db 0" "[]"
        "\<lparr>productId = 7, quantity = 1\<rparr>" "[]"
        "\<lparr>p_id = 1, p_name = ''Laptop'', p_price = 5500099, p_stock = 10\<rparr>"] u9
    by (simp add: createOrder_def)
  have b: "createOrder 5 1
        ([\<lparr>productId = 1, quantity = 2\<rparr>] @ \<lparr>productId = 7, quantity = 1\<rparr> # []) (seed_db 0)
       = (Inl (ProductNotFound 7), seed_db 0)"
    using createOrder_rejections [of "processPayment 5" 5 1 "[]" "seed_db 0"
        "[\<lparr>productId = 1, quantity = 2\<rparr>]" "\<lparr>productId = 7, quantity = 1\<rparr>" "[]"
        "\<lparr>p_id = 1, p_name = ''Laptop'', p_price = 5500099, p_stock = 10\<rparr>"] u1 c2 p7
    by (simp add: createOrder_def)
  have c: "createOrder 5 1
        ([\<lparr>productId = 1, quantity = 6\<rparr>] @ \<lparr>productId = 1, quantity = 5\<rparr> # []) (seed_db 0)
       = (Inl (InsufficientStock ''Laptop'' 4 5), seed_db 0)"
    using createOrder_rejections [of "processPayment 5" 5 1 "[]" "seed_db 0"
        "[\<lparr>productId = 1, quantity = 6\<rparr>]" "\<lparr>productId = 1, quantity = 5\<rparr>" "[]"
        "\<lparr>p_id = 1, p_name = ''Laptop'', p_price = 5500099, p_stock = 10\<rparr>"] u1 c6 p1 sl
    by (simp add: createOrder_def)
  have d: "fst (createOrder 5 1 [\<lparr>productId = 1, quantity = 10\<rparr>] (seed_db 0))
       = Inr \<lparr>r_orderId = 1, r_status = ''processing'', r_totalAmount = 55000990\<rparr>"
    by (simp add: createOrder_def createOrder_with_def transaction_def createOrder_tx_def
        seed_db_def user_findUnique_def product_findUnique_def product_update_def
        order_create_def payment_create_def processPayment_def Let_def)
  show ?thesis
    by (intro conjI) (rule u9, rule a, rule b, rule c, rule c10, rule d)
qed

section \<open>Order cancellation\<close>

text \<open>
  Claim C3. \<open>cancelOrder\<close> on an order whose status is already \<open>cancelled\<close> returns the
  order's identifier with the status \<open>cancelled\<close> and leaves the store as it is,
  without an error. Whenever \<open>cancelOrder\<close> returns, the value returned is the
  identifier with the status \<open>cancelled\<close>, and a second call on the store it leaves
  returns the same value and changes nothing.
\<close>

theorem cancelOrder_idempotent:
  "(order_findUnique orderId s = Some ord \<and> o_status ord = ''cancelled'' \<longrightarrow>
      cancelOrder orderId s = (Inr \<lparr>c_orderId = orderId, c_status = ''cancelled''\<rparr>, s))
   \<and> (cancelOrder orderId s = (Inr r, s') \<longrightarrow>
      r = \<lparr>c_orderId = orderId, c_status = ''cancelled''\<rparr>
      \<and> cancelOrder orderId s' = (Inr r, s'))"
proof -
  have a: "cancelOrder orderId s = (Inr \<lparr>c_orderId = orderId, c_status = ''cancelled''\<rparr>, s)"
    if "order_findUnique orderId s = Some ord \<and> o_status ord = ''cancelled''"
    using that by (simp add: cancelOrder_cancelled)
  have b: "r = \<lparr>c_orderId = orderId, c_status = ''cancelled''\<rparr>
      \<and> cancelOrder orderId s' = (Inr r, s')"
    if "cancelOrder orderId s = (Inr r, s')"
  proof -
    from cancelOrder_Inr [OF that] obtain ord' where
      r: "r = \<lparr>c_orderId = orderId, c_status = ''cancelled''\<rparr>"
      and f: "order_findUnique orderId s' = Some ord'" and c: "o_status ord' = ''cancelled''"
      by blast
    from cancelOrder_cancelled [OF f c] r show ?thesis by simp
  qed
  from a b show ?thesis by blast
qed

theorem cancelOrder_idempotent_witness:
  "cancelOrder 1 seed_db_ordered
     = (Inr \<lparr>c_orderId = 1, c_status = ''cancelled''\<rparr>, seed_db_cancelled)
   \<and> cancelOrder 1 seed_db_cancelled
     = (Inr \<lparr>c_orderId = 1, c_status = ''cancelled''\<rparr>, seed_db_cancelled)
   \<and> order_findUnique 1 seed_db_cancelled
     = Some \<lparr>o_id = 1, o_user_id = 1, o_status = ''cancelled'',
             o_total_amount = 11120198, o_created_at = 5\<rparr>
   \<and> seed_db_cancelled \<noteq> seed_db_ordered"
proof -
  have f: "order_findUnique 1 seed_db_cancelled
     = Some \<lparr>o_id = 1, o_user_id = 1, o_status = ''cancelled'',
             o_total_amount = 11120198, o_created_at = 5\<rparr>"
    by (simp add: order_findUnique_def seed_db_cancelled_def)
  have n: "seed_db_cancelled \<noteq> seed_db_ordered"
    by (simp add: seed_db_cancelled_def seed_db_ordered_def seed_db_def)
  have 1: "cancelOrder 1 seed_db_cancelled
     = (Inr \<lparr>c_orderId = 1, c_status = ''cancelled''\<rparr>, seed_db_cancelled)"
    using cancelOrder_idempotent [of 1 seed_db_ordered
        "\<lparr>o_id = 1, o_user_id = 1, o_status = ''cancelled'',
             o_total_amount = 11120198, o_created_at = 5\<rparr>"
        "\<lparr>c_orderId = 1, c_status = ''cancelled''\<rparr>" seed_db_cancelled] seed_cancel_run
    by simp
  have 2: "cancelOrder 1 seed_db_cancelled
     = (Inr \<lparr>c_orderId = 1, c_status = ''cancelled''\<rparr>, seed_db_cancelled)"
    using cancelOrder_idempotent [of 1 seed_db_cancelled
        "\<lparr>o_id = 1, o_user_id = 1, o_status = ''cancelled'',
             o_total_amount = 11120198, o_created_at = 5\<rparr>"
        "\<lparr>c_orderId = 1, c_status = ''cancelled''\<rparr>" seed_db_cancelled] f
    by simp
  show ?thesis
    by (intro conjI) (rule seed_cancel_run, rule 1, rule f, rule n)
qed

text \<open>
  Claim C4. For an order with status \<open>pending\<close> or \<open>processing\<close> whose line items
  refer to products of the store (the foreign key of the schema), \<open>cancelOrder\<close>
  returns, and the store it leaves is the store of before with two changes: the stock
  of every product has grown by the quantities that the line items of the order record
  for it, and the status of the order is \<open>cancelled\<close>. Payments, line items, users and
  sequences are as before.
\<close>

theorem cancelOrder_restores_stock:
  assumes "order_findUnique orderId s = Some ord"
      and "o_status ord = ''pending'' \<or> o_status ord = ''processing''"
      and "list_all (\<lambda>r. product_findUnique (oi_product_id r) s \<noteq> None)
             (order_orderItems orderId s)"
  shows "cancelOrder orderId s =
           (Inr \<lparr>c_orderId = orderId, c_status = ''cancelled''\<rparr>,
            s\<lparr>products :=
                map (\<lambda>p. p\<lparr>p_stock := p_stock p
                                + recorded_qty (order_orderItems orderId s) (p_id p)\<rparr>)
                  (products s),
              orders :=
                map (\<lambda>r. if o_id r = orderId then r\<lparr>o_status := ''cancelled''\<rparr> else r)
                  (orders s)\<rparr>)
       \<and> payments (snd (cancelOrder orderId s)) = payments s
       \<and> order_items (snd (cancelOrder orderId s)) = order_items s
       \<and> users (snd (cancelOrder orderId s)) = users s"
proof -
  from assms(2) have st: "o_status ord \<noteq> ''cancelled''" "o_status ord \<noteq> ''shipped''"
    "o_status ord \<noteq> ''delivered''"
    by auto
  note c = cancelOrder_proceeds [OF assms(1) st assms(3)]
  show ?thesis unfolding c by (simp add: restore_stock_def)
qed

theorem cancelOrder_restores_stock_witness:
  "order_findUnique 1 seed_db_ordered
     = Some \<lparr>o_id = 1, o_user_id = 1, o_status = ''processing'',
             o_total_amount = 11120198, o_created_at = 5\<rparr>
   \<and> list_all (\<lambda>r. product_findUnique (oi_product_id r) seed_db_ordered \<noteq> None)
         (order_orderItems 1 seed_db_ordered)
   \<and> cancelOrder 1 seed_db_ordered
       = (Inr \<lparr>c_orderId = 1, c_status = ''cancelled''\<rparr>, seed_db_cancelled)
   \<and> map p_stock (products seed_db_ordered) = [8, 49, 100, 25, 0]
   \<and> map p_stock (products seed_db_cancelled) = [10, 50, 100, 25, 0]
   \<and> payments seed_db_cancelled = payments seed_db_ordered
   \<and> order_items seed_db_cancelled = order_items seed_db_ordered"
proof -
  have f: "order_findUnique 1 seed_db_ordered
     = Some \<lparr>o_id = 1, o_user_id = 1, o_status = ''processing'',
             o_total_amount = 11120198, o_created_at = 5\<rparr>"
    by (simp add: order_findUnique_def seed_db_ordered_def)
  have st: "o_status \<lparr>o_id = 1, o_user_id = 1, o_status = ''processing'',
             o_total_amount = 11120198, o_created_at = 5\<rparr> = ''pending''
          \<or> o_status \<lparr>o_id = 1, o_user_id = 1, o_status = ''processing'',
             o_total_amount = 11120198, o_created_at = 5\<rparr> = ''processing''"
    by simp
  have fk: "list_all (\<lambda>r. product_findUnique (oi_product_id r) seed_db_ordered \<noteq> None)
         (order_orderItems 1 seed_db_ordered)"
    by (simp add: order_orderItems_def product_findUnique_def seed_db_ordered_def)
  have e: "(seed_db_ordered
         \<lparr>products :=
            map (\<lambda>p. p\<lparr>p_stock := p_stock p
                                + recorded_qty (order_orderItems 1 seed_db_ordered) (p_id p)\<rparr>)
                  (products seed_db_ordered),
          orders :=
            map (\<lambda>r. if o_id r = 1 then r\<lparr>o_status := ''cancelled''\<rparr> else r)
                  (orders seed_db_ordered)\<rparr>) = seed_db_cancelled"
    by (simp add: seed_db_ordered_def seed_db_cancelled_def seed_db_def recorded_qty_def
          order_orderItems_def)
  have s1: "map p_stock (products seed_db_ordered) = [8, 49, 100, 25, 0]"
    and s2: "map p_stock (products seed_db_cancelled) = [10, 50, 100, 25, 0]"
    and s3: "payments seed_db_cancelled = payments seed_db_ordered"
    and s4: "order_items seed_db_cancelled = order_items seed_db_ordered"
    by (simp_all add: seed_db_ordered_def seed_db_cancelled_def seed_db_def)
  from cancelOrder_restores_stock [OF f st fk] have r:
    "cancelOrder 1 seed_db_ordered
       = (Inr \<lparr>c_orderId = 1, c_status = ''cancelled''\<rparr>, seed_db_cancelled)"
    unfolding e by (rule conjunct1)
  show ?thesis
    by (intro conjI) (rule f, rule fk, rule r, rule s1, rule s2, rule s3, rule s4)
qed

text \<open>
  Claim C7. \<open>cancelOrder\<close> fails with \<open>OrderNotFound\<close> when no order has the
  identifier; it fails with \<open>NotCancelable\<close> naming a status exactly when the order
  exists, has that status, and the status is \<open>shipped\<close> or \<open>delivered\<close>; every
  failing call leaves the store as it was; and a call that changes the store was made
  on an order that, among the status values of the schema, was \<open>pending\<close> or
  \<open>processing\<close>.
\<close>

theorem cancelOrder_failures:
  "(order_findUnique orderId s = None \<longrightarrow> cancelOrder orderId s = (Inl OrderNotFound, s))
   \<and> (fst (cancelOrder orderId s) = Inl (NotCancelable st) \<longleftrightarrow>
        (\<exists>ord. order_findUnique orderId s = Some ord \<and> o_status ord = st
           \<and> (st = ''shipped'' \<or> st = ''delivered'')))
   \<and> (cancelOrder orderId s = (Inl e, s') \<longrightarrow> s' = s)
   \<and> (order_findUnique orderId s = Some ord \<and> o_status ord \<in> set order_statuses
        \<and> snd (cancelOrder orderId s) \<noteq> s \<longrightarrow>
        o_status ord = ''pending'' \<or> o_status ord = ''processing'')"
proof -
  have 1: "cancelOrder orderId s = (Inl OrderNotFound, s)"
    if "order_findUnique orderId s = None"
    using that by (rule cancelOrder_not_found)
  have 2: "fst (cancelOrder orderId s) = Inl (NotCancelable st) \<longleftrightarrow>
        (\<exists>ord. order_findUnique orderId s = Some ord \<and> o_status ord = st
           \<and> (st = ''shipped'' \<or> st = ''delivered''))"
    by (rule cancelOrder_NotCancelable_iff)
  have 3: "s' = s" if "cancelOrder orderId s = (Inl e, s')"
    using that by (rule cancelOrder_Inl)
  have 4: "o_status ord = ''pending'' \<or> o_status ord = ''processing''"
    if h: "order_findUnique orderId s = Some ord \<and> o_status ord \<in> set order_statuses
        \<and> snd (cancelOrder orderId s) \<noteq> s"
  proof -
    from h have "o_status ord \<noteq> ''cancelled'' \<and> o_status ord \<noteq> ''shipped''
       \<and> o_status ord \<noteq> ''delivered''"
      using cancelOrder_changes_only_if by blast
    moreover from h have "o_status ord = ''pending'' \<or> o_status ord = ''processing''
       \<or> o_status ord = ''shipped'' \<or> o_status ord = ''delivered'' \<or> o_status ord = ''cancelled''"
      unfolding order_statuses_def by (simp only: set_simps insert_iff empty_iff) blast
    ultimately show ?thesis by blast
  qed
  from 1 2 3 4 show ?thesis by blast
qed

theorem cancelOrder_failures_witness:
  "order_findUnique 99 seed_db_ordered = None
   \<and> cancelOrder 99 seed_db_ordered = (Inl OrderNotFound, seed_db_ordered)
   \<and> order_findUnique 1 seed_db_shipped
       = Some \<lparr>o_id = 1, o_user_id = 1, o_status = ''shipped'',
               o_total_amount = 11120198, o_created_at = 5\<rparr>
   \<and> fst (cancelOrder 1 seed_db_shipped) = Inl (NotCancelable ''shipped'')
   \<and> snd (cancelOrder 1 seed_db_shipped) = seed_db_shipped
   \<and> ''processing'' \<in> set order_statuses
   \<and> snd (cancelOrder 1 seed_db_ordered) \<noteq> seed_db_ordered"
proof -
  have a: "order_findUnique 99 seed_db_ordered = None"
    by (simp add: order_findUnique_def seed_db_ordered_def)
  have b: "cancelOrder 99 seed_db_ordered = (Inl OrderNotFound, seed_db_ordered)"
    using cancelOrder_failures [of 99 seed_db_ordered "''shipped''" OrderNotFound
        seed_db_ordered "\<lparr>o_id = 1, o_user_id = 1, o_status = ''shipped'',
               o_total_amount = 11120198, o_created_at = 5\<rparr>"] a
    by simp
  have c: "order_findUnique 1 seed_db_shipped
       = Some \<lparr>o_id = 1, o_user_id = 1, o_status = ''shipped'',
               o_total_amount = 11120198, o_created_at = 5\<rparr>"
    by (simp add: order_findUnique_def seed_db_shipped_def)
  have d: "fst (cancelOrder 1 seed_db_shipped) = Inl (NotCancelable ''shipped'')"
    using cancelOrder_failures [of 1 seed_db_shipped "''shipped''"
        "NotCancelable ''shipped''" seed_db_shipped
        "\<lparr>o_id = 1, o_user_id = 1, o_status = ''shipped'',
               o_total_amount = 11120198, o_created_at = 5\<rparr>"] c
    by simp
  have e: "snd (cancelOrder 1 seed_db_shipped) = seed_db_shipped"
    using cancelOrder_failures [of 1 seed_db_shipped "''shipped''"
        "NotCancelable ''shipped''" "snd (cancelOrder 1 seed_db_shipped)"
        "\<lparr>o_id = 1, o_user_id = 1, o_status = ''shipped'',
               o_total_amount = 11120198, o_created_at = 5\<rparr>"] d
    by (simp add: prod_eq_iff)
  have f: "''processing'' \<in> set order_statuses"
    by (simp add: order_statuses_def)
  have g: "snd (cancelOrder 1 seed_db_ordered) \<noteq> seed_db_ordered"
    unfolding seed_cancel_run
    by (simp add: seed_db_cancelled_def seed_db_ordered_def seed_db_def)
  show ?thesis
    by (intro conjI) (rule a, rule b, rule c, rule d, rule e, rule f, rule g)
qed

section \<open>Order details\<close>

text \<open>
  Claim C8. \<open>getOrderDetails\<close> fails with \<open>OrderNotFound\<close> when no order has the
  identifier. When the order, its user and the products of its line items resolve, it
  returns the identifier, status, total and creation time of the order, the
  identifier and email of its user and, for each line item, the product's identifier
  and name, the quantity, and the price recorded in the line item. The call never
  changes the store, and its result is the same after any change of the products'
  prices: the prices shown are those of the line items, not those of the products.
\<close>

theorem getOrderDetails_view:
  "(order_findUnique orderId s = None \<longrightarrow> getOrderDetails orderId s = (Inl OrderNotFound, s))
   \<and> (order_findUnique orderId s = Some ord \<and> user_findUnique (o_user_id ord) s = Some user
        \<and> list_all (\<lambda>r. product_findUnique (oi_product_id r) s \<noteq> None)
             (order_orderItems orderId s) \<longrightarrow>
      getOrderDetails orderId s =
        (Inr \<lparr>v_orderId = orderId, v_status = o_status ord,
              v_totalAmount = o_total_amount ord, v_createdAt = o_created_at ord,
              v_user = \<lparr>uv_id = o_user_id ord, uv_email = u_email user\<rparr>,
              v_items =
                map (\<lambda>r. \<lparr>iv_productId = oi_product_id r,
                           iv_productName = name_at (products s) (oi_product_id r),
                           iv_quantity = oi_quantity r, iv_price = oi_price r\<rparr>)
                  (order_orderItems orderId s)\<rparr>, s))
   \<and> snd (getOrderDetails orderId s) = s
   \<and> fst (getOrderDetails orderId
             (s\<lparr>products := map (\<lambda>p. p\<lparr>p_price := f p\<rparr>) (products s)\<rparr>))
       = fst (getOrderDetails orderId s)"
proof -
  have 1: "getOrderDetails orderId s = (Inl OrderNotFound, s)"
    if "order_findUnique orderId s = None"
    using that by (simp add: getOrderDetails_def)
  have 2: "getOrderDetails orderId s =
        (Inr \<lparr>v_orderId = orderId, v_status = o_status ord,
              v_totalAmount = o_total_amount ord, v_createdAt = o_created_at ord,
              v_user = \<lparr>uv_id = o_user_id ord, uv_email = u_email user\<rparr>,
              v_items =
                map (\<lambda>r. \<lparr>iv_productId = oi_product_id r,
                           iv_productName = name_at (products s) (oi_product_id r),
                           iv_quantity = oi_quantity r, iv_price = oi_price r\<rparr>)
                  (order_orderItems orderId s)\<rparr>, s)"
    if h: "order_findUnique orderId s = Some ord \<and> user_findUnique (o_user_id ord) s = Some user
        \<and> list_all (\<lambda>r. product_findUnique (oi_product_id r) s \<noteq> None)
             (order_orderItems orderId s)"
  proof -
    from h have oid: "o_id ord = orderId"
      by (auto simp: order_findUnique_def dest: find_oid)
    from h have uid: "u_id user = o_user_id ord"
      by (auto simp: user_findUnique_def find_Some_iff)
    from h have "getOrderDetails_items (order_orderItems orderId s) s =
       Inr (map (\<lambda>r. \<lparr>iv_productId = oi_product_id r,
                       iv_productName = name_at (products s) (oi_product_id r),
                       iv_quantity = oi_quantity r, iv_price = oi_price r\<rparr>)
              (order_orderItems orderId s))"
      by (simp add: getOrderDetails_items_ok)
    with h oid uid show ?thesis by (simp add: getOrderDetails_def)
  qed
  from 1 2 getOrderDetails_readonly [of orderId s]
    getOrderDetails_reprice [where orderId = orderId and s = s and f = f]
  show ?thesis by blast
qed

theorem getOrderDetails_view_witness:
  "order_findUnique 99 seed_db_ordered = None
   \<and> getOrderDetails 99 seed_db_ordered = (Inl OrderNotFound, seed_db_ordered)
   \<and> fst (getOrderDetails 1 seed_db_ordered) =
       Inr \<lparr>v_orderId = 1, v_status = ''processing'', v_totalAmount = 11120198, v_createdAt = 5,
           v_user = \<lparr>uv_id = 1, uv_email = ''venkat@example.com''\<rparr>,
           v_items =
             [\<lparr>iv_productId = 1, iv_productName = ''Laptop'', iv_quantity = 2,
               iv_price = 5500099\<rparr>,
              \<lparr>iv_productId = 2, iv_productName = ''Wireless Mouse'', iv_quantity = 1,
               iv_price = 120000\<rparr>]\<rparr>
   \<and> fst (getOrderDetails 1
        (seed_db_ordered\<lparr>products := map (\<lambda>p. p\<lparr>p_price := 2 * p_price p\<rparr>)
                                       (products seed_db_ordered)\<rparr>))
       = fst (getOrderDetails 1 seed_db_ordered)
   \<and> map p_price (map (\<lambda>p. p\<lparr>p_price := 2 * p_price p\<rparr>) (products seed_db_ordered))
       = [11000198, 240000, 340000, 160000, 20000000]"
proof -
  have a: "order_findUnique 99 seed_db_ordered = None"
    by (simp add: order_findUnique_def seed_db_ordered_def)
  note T = getOrderDetails_view [where orderId = 99 and s = seed_db_ordered
      and ord = "\<lparr>o_id = 1, o_user_id = 1, o_status = ''processing'',
        o_total_amount = 11120198, o_created_at = 5\<rparr>"
      and user = "\<lparr>u_id = 1, u_email = ''venkat@example.com'',
        u_password = ''hashed_password_123'', u_created_at = 0\<rparr>"
      and f = "\<lambda>p. 2 * p_price p"]
  have b: "getOrderDetails 99 seed_db_ordered = (Inl OrderNotFound, seed_db_ordered)"
    using T a by simp
  have f: "order_findUnique 1 seed_db_ordered
       = Some \<lparr>o_id = 1, o_user_id = 1, o_status = ''processing'',
               o_total_amount = 11120198, o_created_at = 5\<rparr>
     \<and> user_findUnique (o_user_id \<lparr>o_id = 1, o_user_id = 1, o_status = ''processing'',
               o_total_amount = 11120198, o_created_at = 5\<rparr>) seed_db_ordered
       = Some \<lparr>u_id = 1, u_email = ''venkat@example.com'', u_password = ''hashed_password_123'',
        u_created_at = 0\<rparr>
     \<and> list_all (\<lambda>r. product_findUnique (oi_product_id r) seed_db_ordered \<noteq> None)
             (order_orderItems 1 seed_db_ordered)"
    by (simp add: order_findUnique_def user_findUnique_def product_findUnique_def
          order_orderItems_def seed_db_ordered_def seed_db_def)
  note U = getOrderDetails_view [where orderId = 1 and s = seed_db_ordered
      and ord = "\<lparr>o_id = 1, o_user_id = 1, o_status = ''processing'',
        o_total_amount = 11120198, o_created_at = 5\<rparr>"
      and user = "\<lparr>u_id = 1, u_email = ''venkat@example.com'',
        u_password = ''hashed_password_123'', u_created_at = 0\<rparr>"
      and f = "\<lambda>p. 2 * p_price p"]
  have n: "map (\<lambda>r. \<lparr>iv_productId = oi_product_id r,
                           iv_productName = name_at (products seed_db_ordered) (oi_product_id r),
                           iv_quantity = oi_quantity r, iv_price = oi_price r\<rparr>)
                  (order_orderItems 1 seed_db_ordered)
      = [\<lparr>iv_productId = 1, iv_productName = ''Laptop'', iv_quantity = 2,
               iv_price = 5500099\<rparr>,
              \<lparr>iv_productId = 2, iv_productName = ''Wireless Mouse'', iv_quantity = 1,
               iv_price = 120000\<rparr>]"
    by (simp add: order_orderItems_def name_at_def seed_db_ordered_def seed_db_def)
  have c: "fst (getOrderDetails 1 seed_db_ordered) =
       Inr \<lparr>v_orderId = 1, v_status = ''processing'', v_totalAmount = 11120198, v_createdAt = 5,
           v_user = \<lparr>uv_id = 1, uv_email = ''venkat@example.com''\<rparr>,
           v_items =
             [\<lparr>iv_productId = 1, iv_productName = ''Laptop'', iv_quantity = 2,
               iv_price = 5500099\<rparr>,
              \<lparr>iv_productId = 2, iv_productName = ''Wireless Mouse'', iv_quantity = 1,
               iv_price = 120000\<rparr>]\<rparr>"
    using U f n by simp
  have d: "fst (getOrderDetails 1
        (seed_db_ordered\<lparr>products := map (\<lambda>p. p\<lparr>p_price := 2 * p_price p\<rparr>)
                                       (products seed_db_ordered)\<rparr>))
       = fst (getOrderDetails 1 seed_db_ordered)"
    using U by simp
  have e: "map p_price (map (\<lambda>p. p\<lparr>p_price := 2 * p_price p\<rparr>) (products seed_db_ordered))
       = [11000198, 240000, 340000, 160000, 20000000]"
    by (simp add: seed_db_ordered_def seed_db_def)
  show ?thesis
    by (intro conjI) (rule a, rule b, rule c, rule d, rule e)
qed

section \<open>Validation of the create-order request\<close>

text \<open>
  Claim C10 does not hold on the handler as written. The request
  \<open>{"userId": 1, "items": [null, {"productId": 1, "quantity": 0}]}\<close> has an item with
  quantity zero, but the loop reads \<open>productId\<close> of the item \<open>null\<close> first; the
  \<open>TypeError\<close> is caught, its message names neither \<open>not found\<close> nor
  \<open>Insufficient stock\<close>, and the handler answers 500, not 400. The service is not
  called and the store is unchanged. The lemmas \<open>orderController_createOrder_invalid\<close>
  and \<open>orderController_createOrder_invalid_400\<close> give what holds: an invalid request
  never reaches the service and is answered 400 or 500, and 400 when no item is
  \<open>null\<close>.
\<close>

theorem orderController_createOrder_null_item:
  "orderController_createOrder conv service
     (JObj [(''userId'', JNum (Finite 1)),
            (''items'', JArr [JNull,
                              JObj [(''productId'', JNum (Finite 1)),
                                    (''quantity'', JNum (Finite 0))]])]) s
     = (\<lparr>res_status = 500, res_json = ErrorJson ''Internal server error''\<rparr>, s)"
  by (simp add: orderController_createOrder_def createOrder_catch_def quoted_def)

theorem orderController_createOrder_null_item_witness:
  "orderController_createOrder (\<lambda>v. NaN) (\<lambda>userId its s. (Inr (), seed_db_ordered))
     (JObj [(''userId'', JNum (Finite 1)),
            (''items'', JArr [JNull,
                              JObj [(''productId'', JNum (Finite 1)),
                                    (''quantity'', JNum (Finite 0))]])]) (seed_db 0)
     = (\<lparr>res_status = 500, res_json = ErrorJson ''Internal server error''\<rparr>, seed_db 0)"
  by (rule orderController_createOrder_null_item)

end
